theory Spec2Isabelle
  imports Main "HOL-Library.Sublist"
begin

section \<open>JavaScript values, errors and strings\<close>

text \<open>
  The configurator (\<^verbatim>\<open>src/configure.ts\<close>) keeps every attribute in untyped maps, so
  an attribute is a JavaScript value: \<^verbatim>\<open>undefined\<close>, a string, a boolean, an (integral)
  number or an array of strings. Strings are lists of code units below 256.
\<close>

datatype jsval = JUndefined | JStr string | JBool bool | JNum int | JArr "string list"

text \<open>
  \<^verbatim>\<open>raise(msg)\<close> prints to stderr and calls \<^verbatim>\<open>process.exit(1)\<close>; an uncaught
  \<^verbatim>\<open>throw new Error(msg)\<close> (or a \<^verbatim>\<open>TypeError\<close> of the runtime) ends node with exit
  code 1 as well; \<^verbatim>\<open>process.exit(n)\<close> ends it with code \<open>n\<close>.
\<close>

datatype error = Raise string | Throw string | Exit nat

fun exit_code :: "error \<Rightarrow> nat" where
  "exit_code (Raise msg) = 1"
| "exit_code (Throw msg) = 1"
| "exit_code (Exit n) = n"

definition bind_err :: "error + 'a \<Rightarrow> ('a \<Rightarrow> error + 'b) \<Rightarrow> error + 'b" where
  "bind_err r f = (case r of Inl e \<Rightarrow> Inl e | Inr x \<Rightarrow> f x)"

fun string_of_nat :: "nat \<Rightarrow> string" where
  "string_of_nat n =
     (if n < 10 then [char_of (48 + n)]
      else string_of_nat (n div 10) @ [char_of (48 + n mod 10)])"

declare string_of_nat.simps [simp del]

definition string_of_int :: "int \<Rightarrow> string" where
  "string_of_int i = (if i < 0 then CHR ''-'' # string_of_nat (nat (- i)) else string_of_nat (nat i))"

fun js_join :: "string \<Rightarrow> string list \<Rightarrow> string" where
  "js_join sep [] = []"
| "js_join sep [x] = x"
| "js_join sep (x # y # ys) = x @ sep @ js_join sep (y # ys)"

text \<open>\<^verbatim>\<open>ToString\<close>, as template literals and \<^verbatim>\<open>+\<close> on a string apply it.\<close>

fun js_to_string :: "jsval \<Rightarrow> string" where
  "js_to_string JUndefined = ''undefined''"
| "js_to_string (JStr s) = s"
| "js_to_string (JBool b) = (if b then ''true'' else ''false'')"
| "js_to_string (JNum i) = string_of_int i"
| "js_to_string (JArr xs) = js_join '','' xs"

text \<open>
  \<^verbatim>\<open>===\<close>. Arrays are objects and compare by identity; the model has no identities
  and takes two arrays to be different objects.
\<close>

fun strict_eq :: "jsval \<Rightarrow> jsval \<Rightarrow> bool" where
  "strict_eq (JArr xs) v = False"
| "strict_eq v (JArr ys) = False"
| "strict_eq u v = (u = v)"

definition test_z :: "jsval \<Rightarrow> bool" where
  "test_z str = (str = JUndefined \<or> str = JStr [])"

definition test_nz :: "jsval \<Rightarrow> bool" where
  "test_nz str = (if str = JUndefined \<or> str = JStr [] then False else True)"

definition test_eq :: "jsval \<Rightarrow> jsval \<Rightarrow> bool" where
  "test_eq str1 str2 = (if strict_eq str1 str2 then True else False)"

definition test_nq :: "jsval \<Rightarrow> jsval \<Rightarrow> bool" where
  "test_nq str1 str2 = (if strict_eq str1 str2 then False else True)"

text \<open>White space that \<^verbatim>\<open>String.prototype.trim\<close> removes (the code units below 256).\<close>

definition js_space :: "char \<Rightarrow> bool" where
  "js_space c = (c = CHR 0x09 \<or> c = CHR 0x0A \<or> c = CHR 0x0B \<or> c = CHR 0x0C \<or> c = CHR 0x0D
     \<or> c = CHR 0x20 \<or> c = CHR 0xA0)"

definition js_trim :: "string \<Rightarrow> string" where
  "js_trim s = rev (dropWhile js_space (rev (dropWhile js_space s)))"

text \<open>\<^verbatim>\<open>str.split(sep)\<close> for a separator of one character.\<close>

fun split_on :: "char \<Rightarrow> string \<Rightarrow> string list" where
  "split_on sep [] = [[]]"
| "split_on sep (c # cs) =
     (if c = sep then [] # split_on sep cs
      else (case split_on sep cs of [] \<Rightarrow> [[c]] | w # ws \<Rightarrow> (c # w) # ws))"

definition nonempty_words :: "string \<Rightarrow> string list" where
  "nonempty_words str = filter (\<lambda>s. s \<noteq> []) (split_on CHR '' '' str)"

definition string_words :: "string \<Rightarrow> string list" where
  "string_words s = nonempty_words (js_trim s)"

text \<open>
  \<^verbatim>\<open>string_to_array\<close>: an array is returned as it is, \<^verbatim>\<open>undefined\<close> counts as the
  empty string, a string is trimmed, split at single spaces and stripped of empty
  words. A boolean or a number has no \<^verbatim>\<open>trim\<close> method: the call throws.
\<close>

fun string_to_array :: "jsval \<Rightarrow> error + string list" where
  "string_to_array (JArr xs) = Inr xs"
| "string_to_array JUndefined = Inr (string_words [])"
| "string_to_array (JStr s) = Inr (string_words s)"
| "string_to_array v = Inl (Throw ''TypeError: trim is not a function'')"

definition string_toupper :: "string \<Rightarrow> string" where
  "string_toupper str =
     map (\<lambda>c. if (97::nat) \<le> of_char c \<and> of_char c \<le> (122::nat)
              then char_of (of_char c - (32::nat)) else c) str"

definition string_contains :: "string \<Rightarrow> string \<Rightarrow> bool" where
  "string_contains str substr = (\<exists>k \<in> set [0..<Suc (length str)]. prefix substr (drop k str))"

section \<open>String replacement\<close>

text \<open>
  \<^verbatim>\<open>GetSubstitution\<close> of the language: in a replacement text \<^verbatim>\<open>$$\<close> stands for a
  dollar, \<^verbatim>\<open>$&\<close> for the match, \<^verbatim>\<open>$`\<close> and \<^verbatim>\<open>$'\<close> for the text in front of and after
  it, and \<^verbatim>\<open>$n\<close>, \<^verbatim>\<open>$nn\<close> for a capture group that exists; any other dollar is
  literal.
\<close>

definition digit_val :: "char \<Rightarrow> nat option" where
  "digit_val c = (if (48::nat) \<le> of_char c \<and> of_char c \<le> (57::nat) then Some (of_char c - 48) else None)"

definition capture_ref :: "string list \<Rightarrow> nat \<Rightarrow> string option" where
  "capture_ref caps n = (if 1 \<le> n \<and> n \<le> length caps then Some (caps ! (n - 1)) else None)"

fun get_substitution :: "string \<Rightarrow> string \<Rightarrow> string \<Rightarrow> string list \<Rightarrow> string \<Rightarrow> string" where
  "get_substitution m b a caps [] = []"
| "get_substitution m b a caps [c] = [c]"
| "get_substitution m b a caps (c # d # r) =
     (if c \<noteq> CHR ''$'' then c # get_substitution m b a caps (d # r)
      else if d = CHR ''$'' then CHR ''$'' # get_substitution m b a caps r
      else if d = CHR ''&'' then m @ get_substitution m b a caps r
      else if d = CHR 0x60 then b @ get_substitution m b a caps r
      else if d = CHR 0x27 then a @ get_substitution m b a caps r
      else (case digit_val d of
              None \<Rightarrow> c # get_substitution m b a caps (d # r)
            | Some n1 \<Rightarrow>
                (case r of
                   [] \<Rightarrow> (case capture_ref caps n1 of
                            Some cap \<Rightarrow> cap
                          | None \<Rightarrow> [c, d])
                 | e # r' \<Rightarrow>
                     (case (case digit_val e of None \<Rightarrow> None
                            | Some n2 \<Rightarrow> capture_ref caps (10 * n1 + n2)) of
                        Some cap \<Rightarrow> cap @ get_substitution m b a caps r'
                      | None \<Rightarrow>
                          (case capture_ref caps n1 of
                             Some cap \<Rightarrow> cap @ get_substitution m b a caps (e # r')
                           | None \<Rightarrow> c # d # get_substitution m b a caps (e # r'))))))"

text \<open>\<^verbatim>\<open>str.replace(pattern, replacement)\<close> with a string pattern: the first occurrence.\<close>

fun replace_first_scan :: "string \<Rightarrow> string \<Rightarrow> string \<Rightarrow> string \<Rightarrow> string" where
  "replace_first_scan pat rep seen [] =
     (if pat = [] then get_substitution pat seen [] [] rep else [])"
| "replace_first_scan pat rep seen (c # cs) =
     (if prefix pat (c # cs)
      then get_substitution pat seen (drop (length pat) (c # cs)) [] rep @ drop (length pat) (c # cs)
      else c # replace_first_scan pat rep (seen @ [c]) cs)"

definition js_replace :: "string \<Rightarrow> string \<Rightarrow> string \<Rightarrow> string" where
  "js_replace str pat rep = replace_first_scan pat rep [] str"

text \<open>
  \<^verbatim>\<open>str.replaceAll(pattern, replacement)\<close> with a string pattern: every occurrence,
  from the left, without overlap; an empty pattern matches in front of every character
  and at the end.
\<close>

fun replace_all_empty :: "string \<Rightarrow> string \<Rightarrow> string \<Rightarrow> string" where
  "replace_all_empty rep seen [] = get_substitution [] seen [] [] rep"
| "replace_all_empty rep seen (c # cs) =
     get_substitution [] seen (c # cs) [] rep @ c # replace_all_empty rep (seen @ [c]) cs"

function replace_all_scan :: "string \<Rightarrow> string \<Rightarrow> string \<Rightarrow> string \<Rightarrow> string" where
  "replace_all_scan pat rep seen s =
     (if pat \<noteq> [] \<and> prefix pat s
      then get_substitution pat seen (drop (length pat) s) [] rep
           @ replace_all_scan pat rep (seen @ pat) (drop (length pat) s)
      else (case s of [] \<Rightarrow> [] | c # cs \<Rightarrow> c # replace_all_scan pat rep (seen @ [c]) cs))"
  by pat_completeness auto
termination
  by (relation "measure (\<lambda>(pat, rep, seen, s). length s)") (auto simp: prefix_def)

declare replace_all_scan.simps [simp del]

definition js_replaceAll :: "string \<Rightarrow> string \<Rightarrow> string \<Rightarrow> string" where
  "js_replaceAll str pat rep =
     (if pat = [] then replace_all_empty rep [] str else replace_all_scan pat rep [] str)"

definition string_replace :: "string \<Rightarrow> string \<Rightarrow> string \<Rightarrow> string" where
  "string_replace str pat rep = js_replaceAll str pat rep"

text \<open>\<^verbatim>\<open>_split_flags\<close>; \<^verbatim>\<open>replaceAll\<close> is a method of strings only.\<close>

fun split_flags :: "jsval \<Rightarrow> error + string" where
  "split_flags (JStr str) = Inr (string_replace str '':'' '' '')"
| "split_flags v = Inl (Throw ''TypeError: str.replaceAll is not a function'')"

section \<open>The configuration store and the globals\<close>

type_synonym jsmap = "string \<rightharpoonup> jsval"

definition map_get :: "(string \<rightharpoonup> jsmap) \<Rightarrow> string \<Rightarrow> string \<Rightarrow> jsval" where
  "map_get ms name key =
     (case ms name of None \<Rightarrow> JUndefined
      | Some m \<Rightarrow> (case m key of None \<Rightarrow> JUndefined | Some v \<Rightarrow> v))"

definition map_has :: "(string \<rightharpoonup> jsmap) \<Rightarrow> string \<Rightarrow> string \<Rightarrow> bool" where
  "map_has ms name key = (case ms name of None \<Rightarrow> False | Some m \<Rightarrow> m key \<noteq> None)"

definition map_set :: "(string \<rightharpoonup> jsmap) \<Rightarrow> string \<Rightarrow> string \<Rightarrow> jsval \<Rightarrow> (string \<rightharpoonup> jsmap)" where
  "map_set ms name key v =
     ms(name \<mapsto> (case ms name of None \<Rightarrow> Map.empty | Some m \<Rightarrow> m)(key \<mapsto> v))"

text \<open>
  The module-level variables the modelled functions read or write (the source's
  leading underscores are dropped). \<open>os_log\<close> records, in order, what the program
  does to the world outside: the files it writes, the command lines it hands to
  \<^verbatim>\<open>_os_runv\<close> and the files it removes.
\<close>

datatype os_event = WriteFile string string | RunCmd string | TryRemove string

record state =
  js_maps :: "string \<rightharpoonup> jsmap"
  loading_toolchains :: bool
  loading_options :: bool
  loading_targets :: bool
  xmake_sh_options :: string
  xmake_sh_targets :: string
  xmake_sh_option_current :: string
  xmake_sh_target_current :: string
  xmake_sh_buildir :: string
  xmake_sh_verbose :: bool
  xmake_sh_diagnosis :: bool
  target_plat :: string
  target_arch :: string
  target_mode :: string
  target_toolchain :: string
  project_generator :: string
  make_program :: string
  ninja_program :: string
  install_prefix_default :: string
  install_bindir_default :: string
  install_libdir_default :: string
  install_includedir_default :: string
  targets_toolkinds :: string
  os_log :: "os_event list"

text \<open>
  What the model cannot compute: the outcome of running a command line
  (\<^verbatim>\<open>_os_runv\<close>: \<^verbatim>\<open>true\<close>, \<^verbatim>\<open>false\<close>, or an exception of the process library), the
  standard output of a command (\<^verbatim>\<open>_os_iorunv\<close>; empty when it fails), the name
  \<^verbatim>\<open>_os_tmpfile\<close> returns and the date \<^verbatim>\<open>_os_date\<close> prints.
\<close>

record env =
  os_exec :: "string \<Rightarrow> error + bool"
  os_output :: "string \<Rightarrow> string"
  os_tmpname :: string
  os_today :: string

definition is_plat :: "state \<Rightarrow> string list \<Rightarrow> bool" where
  "is_plat st plats = (target_plat st \<in> set plats)"

definition is_arch :: "state \<Rightarrow> string list \<Rightarrow> bool" where
  "is_arch st archs = (target_arch st \<in> set archs)"

definition is_enabled :: "jsval \<Rightarrow> bool" where
  "is_enabled v = (v \<in> set [JBool True, JStr ''true'', JStr ''yes'', JStr ''y''])"

section \<open>The flag translator\<close>

definition c_languages :: "(string \<times> string) list" where
  "c_languages =
     [(''ansi'', ''-ansi''), (''c89'', ''-std=c89''), (''gnu89'', ''-std=gnu89''),
      (''c99'', ''-std=c99''), (''gnu99'', ''-std=gnu99''), (''c11'', ''-std=c11''),
      (''gnu11'', ''-std=gnu11''), (''c17'', ''-std=c17''), (''gnu17'', ''-std=gnu17'')]"

definition cxx_languages :: "(string \<times> string) list" where
  "cxx_languages =
     [(''cxx98'', ''-std=c++98''), (''c++98'', ''-std=c++98''),
      (''gnuxx98'', ''-std=gnu++98''), (''gnu++98'', ''-std=gnu++98''),
      (''cxx11'', ''-std=c++11''), (''c++11'', ''-std=c++11''),
      (''gnuxx11'', ''-std=gnu++11''), (''gnu++11'', ''-std=gnu++11''),
      (''cxx14'', ''-std=c++14''), (''c++14'', ''-std=c++14''),
      (''gnuxx14'', ''-std=gnu++14''), (''gnu++14'', ''-std=gnu++14''),
      (''cxx17'', ''-std=c++17''), (''c++17'', ''-std=c++17''),
      (''gnuxx17'', ''-std=gnu++17''), (''gnu++17'', ''-std=gnu++17''),
      (''cxx1z'', ''-std=c++1z''), (''c++1z'', ''-std=c++1z''),
      (''gnuxx1z'', ''-std=gnu++1z''), (''gnu++1z'', ''-std=gnu++1z''),
      (''cxx2a'', ''-std=c++2a''), (''c++2a'', ''-std=c++2a''),
      (''gnuxx2a'', ''-std=gnu++2a''), (''gnu++2a'', ''-std=gnu++2a''),
      (''cxx20'', ''-std=c++20''), (''c++20'', ''-std=c++20''),
      (''gnuxx20'', ''-std=gnu++20''), (''gnu++20'', ''-std=gnu++20'')]"

text \<open>
  \<^verbatim>\<open>_get_abstract_flag_for_gcc_clang\<close>: the \<^verbatim>\<open>switch\<close> on the item name, case by
  case; the \<^verbatim>\<open>languages\<close> tables above are its two inner switches.
\<close>

definition get_abstract_flag_for_gcc_clang ::
  "state \<Rightarrow> string \<Rightarrow> string \<Rightarrow> string \<Rightarrow> string \<Rightarrow> error + string" where
  "get_abstract_flag_for_gcc_clang st toolkind toolname itemname v =
     (if itemname = ''defines'' then Inr (''-D'' @ string_replace v [CHR 0x22] [CHR 0x5C, CHR 0x22])
      else if itemname = ''udefines'' then Inr (''-U'' @ v)
      else if itemname = ''includedirs'' then Inr (''-I'' @ v)
      else if itemname = ''linkdirs'' then Inr (''-L'' @ v)
      else if itemname = ''links'' then Inr (''-l'' @ v)
      else if itemname = ''syslinks'' then Inr (''-l'' @ v)
      else if itemname = ''frameworks'' then Inr (''-framework '' @ v)
      else if itemname = ''frameworkdirs'' then Inr (''-F'' @ v)
      else if itemname = ''rpathdirs'' then
        (if toolname = ''gcc'' \<or> toolname = ''gxx''
         then Inr (''-Wl,-rpath='' @ [CHR 0x27] @ js_replace v ''@loader_path'' ''$$$$ORIGIN'' @ [CHR 0x27])
         else if toolname = ''clang'' \<or> toolname = ''clangxx''
         then Inr (''-Xlinker -rpath -Xlinker '' @ js_replace v ''$ORIGIN'' ''@loader_path'')
         else Inr [])
      else if itemname = ''symbols'' then
        (if v = ''debug'' then Inr ''-g''
         else if v = ''hidden'' then Inr ''-fvisibility=hidden''
         else Inr [])
      else if itemname = ''strip'' then
        (if v = ''debug'' then Inr ''-Wl,-S''
         else if v = ''all'' then (if is_plat st [''macosx''] then Inr ''-Wl,-x'' else Inr ''-s'')
         else Inr [])
      else if itemname = ''warnings'' then
        (if v = ''all'' \<or> v = ''more'' \<or> v = ''less'' then Inr ''-Wall''
         else if v = ''allextra'' then Inr ''-Wall -Wextra''
         else if v = ''error'' then Inr ''-Werror''
         else if v = ''everything'' then Inr ''-Wall -Wextra''
         else if v = ''none'' then Inr ''-w''
         else Inr [])
      else if itemname = ''optimizes'' then
        (if v = ''fast'' then Inr ''-O1''
         else if v = ''faster'' then Inr ''-O2''
         else if v = ''fastest'' then Inr ''-O3''
         else if v = ''smallest''
         then (if toolname = ''clang'' \<or> toolname = ''clangxx'' then Inr ''-Oz'' else Inr ''-Os'')
         else if v = ''aggressive'' then Inr ''-Ofast''
         else if v = ''none'' then Inr ''-O0''
         else Inr [])
      else if itemname = ''languages'' then
        (if toolkind = ''cc'' \<or> toolkind = ''mm''
         then (case map_of c_languages v of Some flag \<Rightarrow> Inr flag | None \<Rightarrow> Inr [])
         else if toolkind = ''cxx'' \<or> toolkind = ''mxx''
         then (case map_of cxx_languages v of
                 Some flag \<Rightarrow> Inr flag
               | None \<Rightarrow>
                   (if prefix ''cxx'' v then Inl (Throw (''unknown language value('' @ v @ '')!''))
                    else if prefix ''c++'' v then Inl (Throw (''unknown language value('' @ v @ '')!''))
                    else Inr []))
         else Inr [])
      else Inl (Throw (''unknown itemname('' @ itemname @ '')!'')))"

text \<open>
  The body of the loop of \<^verbatim>\<open>_get_abstract_flags\<close>: the \<^verbatim>\<open>switch\<close> on the tool name
  for one value.
\<close>

definition get_abstract_flag ::
  "state \<Rightarrow> string \<Rightarrow> string \<Rightarrow> string \<Rightarrow> string \<Rightarrow> error + string" where
  "get_abstract_flag st toolkind toolname itemname v =
     (if toolname = ''gcc'' \<or> toolname = ''gxx'' \<or> toolname = ''clang'' \<or> toolname = ''clangxx''
      then get_abstract_flag_for_gcc_clang st toolkind toolname itemname v
      else Inl (Throw (''unknown toolname('' @ toolname @ '')!'')))"

fun get_abstract_flags_loop ::
  "state \<Rightarrow> string \<Rightarrow> string \<Rightarrow> string \<Rightarrow> string list \<Rightarrow> string \<Rightarrow> error + string" where
  "get_abstract_flags_loop st toolkind toolname itemname [] flags = Inr flags"
| "get_abstract_flags_loop st toolkind toolname itemname (v # vs) flags =
     (case get_abstract_flag st toolkind toolname itemname v of
        Inl e \<Rightarrow> Inl e
      | Inr flag \<Rightarrow>
          get_abstract_flags_loop st toolkind toolname itemname vs
            (if flag \<noteq> [] then flags @ '' '' @ flag else flags))"

definition get_abstract_flags ::
  "state \<Rightarrow> string \<Rightarrow> string \<Rightarrow> string \<Rightarrow> jsval \<Rightarrow> error + string" where
  "get_abstract_flags st toolkind toolname itemname vals =
     bind_err (string_to_array vals)
       (\<lambda>vs. get_abstract_flags_loop st toolkind toolname itemname vs [])"

section \<open>Tool names, flag names and toolchains\<close>

text \<open>\<^verbatim>\<open>path_toolname\<close>; \<^verbatim>\<open>endsWith\<close> is a method of strings only.\<close>

fun path_toolname :: "jsval \<Rightarrow> error + string" where
  "path_toolname (JStr path) =
     (if suffix ''-gcc'' path \<or> suffix ''/gcc'' path then Inr ''gcc''
      else if path = ''gcc'' then Inr ''gcc''
      else if suffix ''-g++'' path \<or> suffix ''/g++'' path then Inr ''gxx''
      else if path = ''g++'' then Inr ''gxx''
      else if prefix ''xcrun'' path \<and> suffix ''clang++'' path then Inr ''clangxx''
      else if prefix ''xcrun'' path \<and> suffix ''clang'' path then Inr ''clang''
      else if suffix ''-clang++'' path \<or> suffix ''/clang++'' path then Inr ''clangxx''
      else if path = ''clang++'' then Inr ''clangxx''
      else if suffix ''-clang'' path \<or> suffix ''/clang'' path then Inr ''clang''
      else if path = ''clang'' then Inr ''clang''
      else if suffix ''-ar'' path \<or> suffix ''/ar'' path then Inr ''ar''
      else if path = ''ar'' then Inr ''ar''
      else Inl (Throw (''unknown tool '' @ path)))"
| "path_toolname v = Inl (Throw ''TypeError: path.endsWith is not a function'')"

definition get_flagname :: "string \<Rightarrow> error + string" where
  "get_flagname toolkind =
     (if toolkind = ''cc'' then Inr ''cflags''
      else if toolkind = ''cxx'' then Inr ''cxxflags''
      else if toolkind = ''as'' then Inr ''asflags''
      else if toolkind = ''mm'' then Inr ''mflags''
      else if toolkind = ''mxx'' then Inr ''mxxflags''
      else if toolkind = ''ar'' then Inr ''arflags''
      else if toolkind = ''sh'' then Inr ''shflags''
      else if toolkind = ''ld'' then Inr ''ldflags''
      else Inl (Throw (''unknown toolkind('' @ toolkind @ '')!'')))"

definition get_toolchain_item :: "state \<Rightarrow> string \<Rightarrow> string \<Rightarrow> jsval" where
  "get_toolchain_item st name key = map_get (js_maps st) ''toolchains'' (name @ ''_'' @ key)"

definition get_toolchain_toolset :: "state \<Rightarrow> string \<Rightarrow> string \<Rightarrow> jsval" where
  "get_toolchain_toolset st name kind = get_toolchain_item st name (''toolset_'' @ kind)"

definition toolchain_compcmd_for_gcc_clang :: "string \<Rightarrow> string \<Rightarrow> string \<Rightarrow> string \<Rightarrow> string" where
  "toolchain_compcmd_for_gcc_clang program objectfile sourcefile flags =
     program @ '' -c '' @ flags @ '' -o '' @ objectfile @ '' '' @ sourcefile"

text \<open>
  In \<^verbatim>\<open>_toolchain_linkcmd_for_gcc_clang\<close> the flags of a shared library are a plain
  string literal, not a template: the text \<^verbatim>\<open>${flags}\<close> itself.
\<close>

definition toolchain_linkcmd_for_gcc_clang ::
  "string \<Rightarrow> string \<Rightarrow> string \<Rightarrow> string \<Rightarrow> string \<Rightarrow> string" where
  "toolchain_linkcmd_for_gcc_clang toolkind program binaryfile objectfiles flags =
     (let flags' = (if toolkind = ''sh'' then ''-shared -fPIC ${flags}'' else flags)
      in program @ '' -o '' @ binaryfile @ '' '' @ objectfiles @ '' '' @ flags')"

definition toolchain_linkcmd_for_ar ::
  "string \<Rightarrow> string \<Rightarrow> string \<Rightarrow> string \<Rightarrow> string \<Rightarrow> string" where
  "toolchain_linkcmd_for_ar toolkind program binaryfile objectfiles flags =
     program @ '' '' @ flags @ '' '' @ binaryfile @ '' '' @ objectfiles"

definition toolchain_compcmd :: "state \<Rightarrow> string \<Rightarrow> string \<Rightarrow> string \<Rightarrow> string \<Rightarrow> error + string" where
  "toolchain_compcmd st sourcekind objectfile sourcefile flags =
     (let program = get_toolchain_toolset st (target_toolchain st) sourcekind
      in bind_err (path_toolname program) (\<lambda>toolname.
           if toolname = ''gcc'' \<or> toolname = ''gxx'' \<or> toolname = ''clang'' \<or> toolname = ''clangxx''
           then Inr (toolchain_compcmd_for_gcc_clang (js_to_string program) objectfile sourcefile flags)
           else Inl (Throw (''unknown toolname('' @ toolname @ '')!''))))"

definition toolchain_linkcmd :: "state \<Rightarrow> string \<Rightarrow> string \<Rightarrow> string \<Rightarrow> string \<Rightarrow> error + string" where
  "toolchain_linkcmd st toolkind binaryfile objectfiles flags =
     (let program = get_toolchain_toolset st (target_toolchain st) toolkind
      in bind_err (path_toolname program) (\<lambda>toolname.
           if toolname = ''gcc'' \<or> toolname = ''gxx'' \<or> toolname = ''clang'' \<or> toolname = ''clangxx''
           then Inr (toolchain_linkcmd_for_gcc_clang toolkind (js_to_string program) binaryfile objectfiles flags)
           else if toolname = ''ar''
           then Inr (toolchain_linkcmd_for_ar toolkind (js_to_string program) binaryfile objectfiles flags)
           else Inl (Raise (''unknown toolname('' @ toolname @ '')!''))))"

text \<open>\<^verbatim>\<open>_os_runv\<close>: the command line is logged and the environment decides.\<close>

definition os_effect :: "state \<Rightarrow> os_event \<Rightarrow> state" where
  "os_effect st ev = st\<lparr>os_log := os_log st @ [ev]\<rparr>"

definition os_runv :: "env \<Rightarrow> state \<Rightarrow> string \<Rightarrow> error + (bool \<times> state)" where
  "os_runv ev st cmd =
     (case os_exec ev cmd of
        Inl e \<Rightarrow> Inl e
      | Inr ok \<Rightarrow> Inr (ok, st\<lparr>os_log := os_log st @ [RunCmd cmd]\<rparr>))"

section \<open>Options\<close>

definition has_option :: "state \<Rightarrow> string \<Rightarrow> bool" where
  "has_option st name = map_has (js_maps st) ''options'' (name @ ''_name'')"

definition get_option_item :: "state \<Rightarrow> string \<Rightarrow> string \<Rightarrow> jsval" where
  "get_option_item st name key = map_get (js_maps st) ''options'' (name @ ''_'' @ key)"

definition set_option_item :: "state \<Rightarrow> string \<Rightarrow> string \<Rightarrow> jsval \<Rightarrow> error + state" where
  "set_option_item st name key v =
     (if test_nz (JStr name)
      then Inr (st\<lparr>js_maps := map_set (js_maps st) ''options'' (name @ ''_'' @ key) v\<rparr>)
      else Inl (Raise (''please call set_'' @ key @ ''('' @ js_to_string v @ '') in the option scope!'')))"

definition add_option_item :: "state \<Rightarrow> string \<Rightarrow> string \<Rightarrow> jsval \<Rightarrow> error + state" where
  "add_option_item st name key v =
     (if test_nz (JStr name)
      then (let values = map_get (js_maps st) ''options'' (name @ ''_'' @ key);
                newValues = (if values = JUndefined then v
                             else JStr (js_to_string values @ '' '' @ js_to_string v))
            in Inr (st\<lparr>js_maps := map_set (js_maps st) ''options'' (name @ ''_'' @ key) newValues\<rparr>))
      else Inl (Throw (''please call add_'' @ key @ ''('' @ js_to_string v @ '') in the option scope!'')))"

definition get_option_value :: "state \<Rightarrow> string \<Rightarrow> jsval" where
  "get_option_value st name =
     (let v = get_option_item st name ''value''
      in if test_z v then get_option_item st name ''default'' else v)"

definition set_option_value :: "state \<Rightarrow> string \<Rightarrow> jsval \<Rightarrow> error + state" where
  "set_option_value st name v = set_option_item st name ''value'' v"

definition is_config :: "state \<Rightarrow> string \<Rightarrow> jsval \<Rightarrow> bool" where
  "is_config st name v =
     (if \<not> loading_targets st then False
      else (let value_cur = get_option_value st name in strict_eq value_cur v))"

definition has_config :: "state \<Rightarrow> string \<Rightarrow> bool" where
  "has_config st name =
     (if \<not> loading_targets st then False
      else (let value_cur = get_option_value st name in is_enabled value_cur))"

definition set_config :: "state \<Rightarrow> string \<Rightarrow> jsval \<Rightarrow> error + state" where
  "set_config st name v = set_option_value st name v"

text \<open>
  \<^verbatim>\<open>option(name, description, default)\<close> opens an option scope (called
  \<open>option_begin\<close> here, next to \<^verbatim>\<open>option_end\<close>).
\<close>

definition option_begin :: "state \<Rightarrow> string \<Rightarrow> jsval \<Rightarrow> jsval \<Rightarrow> state" where
  "option_begin st name description dflt =
     (let st1 = st\<lparr>xmake_sh_option_current := name\<rparr>
      in if \<not> loading_options st1
         then (if test_nz description then st1\<lparr>xmake_sh_option_current := []\<rparr> else st1)
         else
           (let st2 = (if \<not> map_has (js_maps st1) ''options'' (name @ ''_name'')
                       then st1\<lparr>xmake_sh_options := xmake_sh_options st1 @ '' '' @ name\<rparr>
                       else st1);
                st3 = st2\<lparr>js_maps := map_set (js_maps st2) ''options'' (name @ ''_name'') (JStr name)\<rparr>;
                st4 = st3\<lparr>js_maps := map_set (js_maps st3) ''options'' (name @ ''_description'') description\<rparr>;
                st5 = st4\<lparr>js_maps := map_set (js_maps st4) ''options'' (name @ ''_default'') dflt\<rparr>
            in if test_nz description then st5\<lparr>xmake_sh_option_current := []\<rparr> else st5))"

definition option_end :: "state \<Rightarrow> state" where
  "option_end st = st\<lparr>xmake_sh_option_current := []\<rparr>"

definition add_cfuncs :: "state \<Rightarrow> jsval \<Rightarrow> error + state" where
  "add_cfuncs st cfuncs =
     (if \<not> loading_options st then Inr st
      else add_option_item st (xmake_sh_option_current st) ''cfuncs'' cfuncs)"

definition add_cxxfuncs :: "state \<Rightarrow> jsval \<Rightarrow> error + state" where
  "add_cxxfuncs st cxxfuncs =
     (if \<not> loading_options st then Inr st
      else add_option_item st (xmake_sh_option_current st) ''cxxfuncs'' cxxfuncs)"

definition add_cincludes :: "state \<Rightarrow> jsval \<Rightarrow> error + state" where
  "add_cincludes st cincludes =
     (if \<not> loading_options st then Inr st
      else add_option_item st (xmake_sh_option_current st) ''cincludes'' cincludes)"

text \<open>JavaScript truthiness, as \<^verbatim>\<open>||\<close>, \<^verbatim>\<open>!\<close> and \<^verbatim>\<open>if (flag)\<close> read a value.\<close>

fun js_truthy :: "jsval \<Rightarrow> bool" where
  "js_truthy JUndefined = False"
| "js_truthy (JStr s) = (s \<noteq> [])"
| "js_truthy (JBool b) = b"
| "js_truthy (JNum i) = (i \<noteq> 0)"
| "js_truthy (JArr xs) = True"

definition option_need_checking :: "state \<Rightarrow> string \<Rightarrow> bool" where
  "option_need_checking st name =
     (let dflt = (case get_option_item st name ''default'' of JUndefined \<Rightarrow> JStr [] | v \<Rightarrow> v)
      in if test_nz dflt then False
         else
           (let cfuncs = get_option_item st name ''cfuncs'';
                cxxfuncs = get_option_item st name ''cxxfuncs'';
                cincludes = get_option_item st name ''cincludes'';
                cxxincludes = get_option_item st name ''cxxincludes'';
                ctypes = get_option_item st name ''ctypes'';
                cxxtypes = get_option_item st name ''cxxtypes'';
                csnippets = get_option_item st name ''csnippets'';
                cxxsnippets = get_option_item st name ''cxxsnippets'';
                links = get_option_item st name ''links'';
                syslinks = get_option_item st name ''syslinks''
            in if js_truthy cfuncs \<or> js_truthy cxxfuncs \<or> js_truthy cincludes \<or> js_truthy cxxincludes
                  \<or> js_truthy ctypes \<or> js_truthy cxxtypes \<or> js_truthy csnippets \<or> js_truthy cxxsnippets
                  \<or> js_truthy links \<or> js_truthy syslinks
               then True else False))"

fun options_for_checking_loop :: "state \<Rightarrow> string list \<Rightarrow> string \<Rightarrow> string" where
  "options_for_checking_loop st [] options = options"
| "options_for_checking_loop st (name # names) options =
     (let showmenu = get_option_item st name ''showmenu''
      in options_for_checking_loop st names
           (if \<not> js_truthy showmenu \<and> option_need_checking st name
            then options @ '' '' @ name else options))"

definition get_options_for_checking :: "state \<Rightarrow> string" where
  "get_options_for_checking st =
     options_for_checking_loop st (string_words (xmake_sh_options st)) []"

definition get_option_abstract_flags ::
  "state \<Rightarrow> string \<Rightarrow> string \<Rightarrow> string \<Rightarrow> string \<Rightarrow> jsval \<Rightarrow> error + string" where
  "get_option_abstract_flags st name toolkind toolname itemname vals =
     (let vals' = (if test_z vals then get_option_item st name itemname else vals)
      in get_abstract_flags st toolkind toolname itemname vals')"

section \<open>The option prober\<close>

definition get_funccode :: "string \<Rightarrow> string" where
  "get_funccode func =
     (if string_contains func ''('' then func
      else ''volatile void* p'' @ func @ '' = (void*)&'' @ func @ '';'')"

definition is_ascii_letter :: "char \<Rightarrow> bool" where
  "is_ascii_letter c =
     (((97::nat) \<le> of_char c \<and> of_char c \<le> (122::nat)) \<or> ((65::nat) \<le> of_char c \<and> of_char c \<le> (90::nat)))"

definition generate_cxsnippets_sourcecode :: "jsval \<Rightarrow> jsval \<Rightarrow> jsval \<Rightarrow> jsval \<Rightarrow> error + string" where
  "generate_cxsnippets_sourcecode funcs incls types snippets =
     bind_err (string_to_array incls) (\<lambda>incl_list.
     bind_err (string_to_array types) (\<lambda>type_list.
     bind_err (string_to_array funcs) (\<lambda>func_list.
       (let snippet_includes =
              concat (map (\<lambda>incl. ''#include '' @ [CHR 0x22] @ incl @ [CHR 0x22, CHR 0x0A]) incl_list);
            snippet_types =
              concat (map (\<lambda>ty. ''typedef '' @ ty @ '' __type_''
                                 @ map (\<lambda>c. if is_ascii_letter c then c else CHR ''_'') ty
                                 @ [CHR '';'', CHR 0x0A]) type_list);
            snippet_funcs = concat (map (\<lambda>func. get_funccode func @ [CHR 0x0A]) func_list);
            code1 = (if test_nz (JStr snippet_includes) then snippet_includes @ [CHR 0x0A] else []);
            code2 = (if test_nz (JStr snippet_types) then code1 @ snippet_types @ [CHR 0x0A] else code1);
            code3 = (if test_nz snippets then code2 @ js_to_string snippets @ [CHR 0x0A] else code2)
        in Inr (code3 @ ''int main(int argc, char** argv) {'' @ [CHR 0x0A] @ ''    '' @ snippet_funcs
                @ [CHR 0x0A] @ ''    return 0;'' @ [CHR 0x0A] @ ''}'')))))"

fun option_compflags_loop ::
  "state \<Rightarrow> string \<Rightarrow> string \<Rightarrow> string \<Rightarrow> string list \<Rightarrow> string \<Rightarrow> error + string" where
  "option_compflags_loop st name sourcekind toolname [] compflags = Inr compflags"
| "option_compflags_loop st name sourcekind toolname (itemname # itemnames) compflags =
     bind_err (get_option_abstract_flags st name sourcekind toolname itemname (JStr [])) (\<lambda>flags.
       if test_nz (JStr flags)
       then bind_err (split_flags (JStr flags)) (\<lambda>flags'.
              option_compflags_loop st name sourcekind toolname itemnames (compflags @ '' '' @ flags'))
       else option_compflags_loop st name sourcekind toolname itemnames compflags)"

fun option_rawflags_loop :: "state \<Rightarrow> string \<Rightarrow> string list \<Rightarrow> string \<Rightarrow> string" where
  "option_rawflags_loop st name [] compflags = compflags"
| "option_rawflags_loop st name (flagname # flagnames) compflags =
     (let flags = get_option_item st name flagname
      in option_rawflags_loop st name flagnames
           (if test_nz flags then compflags @ '' '' @ js_to_string flags else compflags))"

fun option_linkflags_loop ::
  "state \<Rightarrow> string \<Rightarrow> string \<Rightarrow> string \<Rightarrow> string list \<Rightarrow> string \<Rightarrow> error + string" where
  "option_linkflags_loop st name toolkind toolname [] linkflags = Inr linkflags"
| "option_linkflags_loop st name toolkind toolname (itemname # itemnames) linkflags =
     bind_err (get_option_abstract_flags st name toolkind toolname itemname (JStr [])) (\<lambda>flags.
       option_linkflags_loop st name toolkind toolname itemnames
         (if test_nz (JStr flags) then linkflags @ '' '' @ flags else linkflags))"

text \<open>The compile step of \<^verbatim>\<open>_check_cxsnippets\<close> (``try compiling it'').\<close>

definition check_cxsnippets_compile ::
  "env \<Rightarrow> state \<Rightarrow> string \<Rightarrow> string \<Rightarrow> string \<Rightarrow> string \<Rightarrow> error + (bool \<times> state)" where
  "check_cxsnippets_compile ev st name sourcekind objectfile sourcefile =
     (let program = get_toolchain_toolset st (target_toolchain st) sourcekind
      in bind_err (path_toolname program) (\<lambda>toolname.
         bind_err (option_compflags_loop st name sourcekind toolname
                     [''languages'', ''warnings'', ''optimizes'', ''defines'', ''undefines''] []) (\<lambda>compflags.
           (let flagnames = ''cxflags'' @ (if test_eq (JStr sourcekind) (JStr ''cxx'') then '' cxxflags'' else '' cflags'');
                compflags' = option_rawflags_loop st name (split_on CHR '' '' flagnames) compflags
            in bind_err (toolchain_compcmd st sourcekind objectfile sourcefile compflags') (\<lambda>compcmd.
                 os_runv ev st compcmd)))))"

text \<open>The link step (``try linking it'').\<close>

definition check_cxsnippets_link ::
  "env \<Rightarrow> state \<Rightarrow> string \<Rightarrow> string \<Rightarrow> string \<Rightarrow> error + (bool \<times> state)" where
  "check_cxsnippets_link ev st name binaryfile objectfile =
     (let toolkind = ''ld'';
          program = get_toolchain_toolset st (target_toolchain st) toolkind
      in bind_err (path_toolname program) (\<lambda>toolname.
         bind_err (option_linkflags_loop st name toolkind toolname
                     [''linkdirs'', ''links'', ''syslinks''] []) (\<lambda>linkflags.
         bind_err (let flags = get_option_item st name ''ldflags''
                   in if test_nz flags
                      then bind_err (split_flags flags) (\<lambda>flags'. Inr (linkflags @ '' '' @ flags'))
                      else Inr linkflags) (\<lambda>linkflags'.
         bind_err (toolchain_linkcmd st toolkind binaryfile objectfile linkflags') (\<lambda>linkcmd.
           os_runv ev st linkcmd)))))"

definition check_cxsnippets :: "env \<Rightarrow> state \<Rightarrow> string \<Rightarrow> string \<Rightarrow> error + (bool \<times> state)" where
  "check_cxsnippets ev st name kind =
     (let funcs = get_option_item st name (kind @ ''funcs'');
          incls = get_option_item st name (kind @ ''includes'');
          types = get_option_item st name (kind @ ''types'');
          snippets = get_option_item st name (kind @ ''snippets'');
          links = get_option_item st name ''links'';
          syslinks = get_option_item st name ''syslinks''
      in if test_z funcs \<and> test_z incls \<and> test_z types \<and> test_z snippets
         then Inr (False, st)
         else
           (let links' = (if test_nz syslinks then JStr (js_to_string links @ js_to_string syslinks) else links);
                extension = (if test_eq (JStr kind) (JStr ''cxx'') then ''.cpp'' else ''.c'');
                sourcekind = (if test_eq (JStr kind) (JStr ''cxx'') then ''cxx'' else ''cc'')
            in bind_err (generate_cxsnippets_sourcecode
                           (case funcs of JUndefined \<Rightarrow> JStr [] | v \<Rightarrow> v) incls
                           (case types of JUndefined \<Rightarrow> JStr [] | v \<Rightarrow> v) snippets) (\<lambda>sourcecode.
                 (let tmpfile = os_tmpname ev;
                      sourcefile = tmpfile @ extension;
                      objectfile = tmpfile @ ''.o'';
                      binaryfile = tmpfile @ ''.bin'';
                      st1 = os_effect st (WriteFile sourcefile sourcecode)
                  in bind_err (check_cxsnippets_compile ev st1 name sourcekind objectfile sourcefile) (\<lambda>(ok, st2).
                     bind_err (if ok \<and> test_nz links'
                               then check_cxsnippets_link ev st2 name binaryfile objectfile
                               else Inr (ok, st2)) (\<lambda>(ok', st3).
                       Inr (ok', os_effect (os_effect (os_effect st3 (TryRemove sourcefile))
                                              (TryRemove objectfile)) (TryRemove binaryfile))))))))"

definition check_csnippets :: "env \<Rightarrow> state \<Rightarrow> string \<Rightarrow> error + (bool \<times> state)" where
  "check_csnippets ev st name = check_cxsnippets ev st name ''c''"

definition check_cxxsnippets :: "env \<Rightarrow> state \<Rightarrow> string \<Rightarrow> error + (bool \<times> state)" where
  "check_cxxsnippets ev st name = check_cxsnippets ev st name ''cxx''"

text \<open>\<^verbatim>\<open>_check_csnippets(name) && _check_cxxsnippets(name)\<close>, with its short circuit.\<close>

definition check_option :: "env \<Rightarrow> state \<Rightarrow> string \<Rightarrow> error + (bool \<times> state)" where
  "check_option ev st name =
     bind_err (check_csnippets ev st name) (\<lambda>(ok, st').
       if ok then check_cxxsnippets ev st' name else Inr (False, st'))"

fun check_options_loop :: "env \<Rightarrow> state \<Rightarrow> string list \<Rightarrow> error + state" where
  "check_options_loop ev st [] = Inr st"
| "check_options_loop ev st (name # names) =
     bind_err (check_option ev st name) (\<lambda>(ok, st').
     bind_err (set_option_value st' name (JBool ok)) (\<lambda>st''.
       check_options_loop ev st'' names))"

definition check_options :: "env \<Rightarrow> state \<Rightarrow> error + state" where
  "check_options ev st =
     (let options = get_options_for_checking st
      in check_options_loop ev st (string_words options))"

section \<open>The command line\<close>

text \<open>
  \<^verbatim>\<open>_parse_argument_name\<close>: a leading \<^verbatim>\<open>--\<close> is dropped (\<^verbatim>\<open>/^--/\<close>), then the last
  \<^verbatim>\<open>=\<close> and what follows it (\<^verbatim>\<open>/=[^=]*$/\<close>). \<^verbatim>\<open>_parse_argument_value\<close>: everything
  up to the first \<^verbatim>\<open>=\<close> is dropped (\<^verbatim>\<open>/^[^=]*=/\<close>).
\<close>

definition parse_argument_name :: "string \<Rightarrow> string" where
  "parse_argument_name arg =
     (let a = (if prefix ''--'' arg then drop 2 arg else arg)
      in if CHR ''='' \<in> set a then rev (tl (dropWhile (\<lambda>c. c \<noteq> CHR ''='') (rev a))) else a)"

definition parse_argument_value :: "string \<Rightarrow> string" where
  "parse_argument_value arg =
     (if CHR ''='' \<in> set arg then tl (dropWhile (\<lambda>c. c \<noteq> CHR ''='') arg) else arg)"

text \<open>Both print their banner and leave the process.\<close>

definition show_usage :: "state \<Rightarrow> error + (bool \<times> state)" where
  "show_usage st = Inl (Exit 1)"

definition show_version :: "state \<Rightarrow> error + (bool \<times> state)" where
  "show_version st = Inl (Exit 2)"

definition handle_option :: "state \<Rightarrow> string \<Rightarrow> error + (bool \<times> state)" where
  "handle_option st arg =
     (let name = parse_argument_name arg;
          v = parse_argument_value arg
      in if test_eq (JStr name) (JStr ''help'') then show_usage st
         else if test_eq (JStr name) (JStr ''version'') then show_version st
         else if test_eq (JStr name) (JStr ''verbose'') then Inr (True, st\<lparr>xmake_sh_verbose := True\<rparr>)
         else if test_eq (JStr name) (JStr ''diagnosis'') then Inr (True, st\<lparr>xmake_sh_diagnosis := True\<rparr>)
         else if test_eq (JStr name) (JStr ''plat'') then Inr (True, st\<lparr>target_plat := v\<rparr>)
         else if test_eq (JStr name) (JStr ''arch'') then Inr (True, st\<lparr>target_arch := v\<rparr>)
         else if test_eq (JStr name) (JStr ''mode'') then Inr (True, st\<lparr>target_mode := v\<rparr>)
         else if test_eq (JStr name) (JStr ''toolchain'') then Inr (True, st\<lparr>target_toolchain := v\<rparr>)
         else if test_eq (JStr name) (JStr ''generator'') then Inr (True, st\<lparr>project_generator := v\<rparr>)
         else if test_eq (JStr name) (JStr ''make'') then Inr (True, st\<lparr>make_program := v\<rparr>)
         else if test_eq (JStr name) (JStr ''ninja'') then Inr (True, st\<lparr>ninja_program := v\<rparr>)
         else if test_eq (JStr name) (JStr ''prefix'') then Inr (True, st\<lparr>install_prefix_default := v\<rparr>)
         else if test_eq (JStr name) (JStr ''bindir'') then Inr (True, st\<lparr>install_bindir_default := v\<rparr>)
         else if test_eq (JStr name) (JStr ''libdir'') then Inr (True, st\<lparr>install_libdir_default := v\<rparr>)
         else if test_eq (JStr name) (JStr ''includedir'') then Inr (True, st\<lparr>install_includedir_default := v\<rparr>)
         else if test_eq (JStr name) (JStr ''buildir'') then Inr (True, st\<lparr>xmake_sh_buildir := v\<rparr>)
         else if has_option st name
         then bind_err (set_option_value st name (JStr v)) (\<lambda>st'. Inr (True, st'))
         else Inr (False, st))"

text \<open>The loop over \<^verbatim>\<open>process.argv.slice(2)\<close>.\<close>

fun handle_arguments :: "state \<Rightarrow> string list \<Rightarrow> error + state" where
  "handle_arguments st [] = Inr st"
| "handle_arguments st (arg # args) =
     (case handle_option st arg of
        Inl e \<Rightarrow> Inl e
      | Inr (handled, st') \<Rightarrow>
          if \<not> handled then Inl (Throw (''Unknown option: '' @ arg))
          else handle_arguments st' args)"

text \<open>
  The exit code of a run: the argument loop, then everything that follows it
  (detection, loading the targets, generation), here the parameter \<open>rest\<close>; a run
  that reaches the end of the script leaves node with code 0.
\<close>

definition configure_exit_code :: "(state \<Rightarrow> error + state) \<Rightarrow> state \<Rightarrow> string list \<Rightarrow> nat" where
  "configure_exit_code rest st args =
     (case bind_err (handle_arguments st args) rest of
        Inl e \<Rightarrow> exit_code e
      | Inr st' \<Rightarrow> 0)"

section \<open>Toolchains\<close>

text \<open>\<^verbatim>\<open>toolchain(name)\<close> opens a toolchain scope (\<open>toolchain_begin\<close> here).\<close>

definition toolchain_begin :: "state \<Rightarrow> string \<Rightarrow> state" where
  "toolchain_begin st name =
     (if \<not> loading_toolchains st then st
      else st\<lparr>js_maps := map_set (js_maps st) ''toolchains'' (name @ ''_name'') (JStr name)\<rparr>)"

definition set_toolchain_item :: "state \<Rightarrow> string \<Rightarrow> string \<Rightarrow> jsval \<Rightarrow> error + state" where
  "set_toolchain_item st name key v =
     (if test_nz (JStr name)
      then Inr (st\<lparr>js_maps := map_set (js_maps st) ''toolchains'' (name @ ''_'' @ key) v\<rparr>)
      else Inl (Raise ''please set toolchain in the toolchain scope!''))"

definition set_toolchain_toolset :: "state \<Rightarrow> string \<Rightarrow> string \<Rightarrow> jsval \<Rightarrow> error + state" where
  "set_toolchain_toolset st name kind programs = set_toolchain_item st name (''toolset_'' @ kind) programs"

section \<open>Paths\<close>





section \<open>Targets\<close>


text \<open>
  \<^verbatim>\<open>_get_target_item\<close>: the target's own value, with the value of the root scope in
  front of it when there is one (\<^verbatim>\<open>root_values + " " + values\<close>).
\<close>

definition get_target_item :: "state \<Rightarrow> string \<Rightarrow> string \<Rightarrow> jsval" where
  "get_target_item st name key =
     (let vals = map_get (js_maps st) ''targets'' (name @ ''_'' @ key)
      in if map_has (js_maps st) ''targets'' (''__root_'' @ key)
         then (let root_values = map_get (js_maps st) ''targets'' (''__root_'' @ key)
               in if test_nz vals then JStr (js_to_string root_values @ '' '' @ js_to_string vals)
                  else root_values)
         else vals)"

definition set_target_item :: "state \<Rightarrow> string \<Rightarrow> string \<Rightarrow> jsval \<Rightarrow> state" where
  "set_target_item st name key v =
     (if test_nz (JStr name)
      then st\<lparr>js_maps := map_set (js_maps st) ''targets'' (name @ ''_'' @ key) v\<rparr>
      else st\<lparr>js_maps := map_set (js_maps st) ''targets'' (''__root_'' @ key) v\<rparr>)"

definition add_target_item :: "state \<Rightarrow> string \<Rightarrow> string \<Rightarrow> jsval \<Rightarrow> state" where
  "add_target_item st name key v =
     (if test_nz (JStr name)
      then (let vals = map_get (js_maps st) ''targets'' (name @ ''_'' @ key);
                newValues = (if vals = JUndefined then v
                             else JStr (js_to_string vals @ '' '' @ js_to_string v))
            in st\<lparr>js_maps := map_set (js_maps st) ''targets'' (name @ ''_'' @ key) newValues\<rparr>)
      else (let vals = map_get (js_maps st) ''targets'' (''__root_'' @ key);
                newValues = (if vals = JUndefined then v
                             else JStr (js_to_string vals @ '' '' @ js_to_string v))
            in st\<lparr>js_maps := map_set (js_maps st) ''targets'' (''__root_'' @ key) newValues\<rparr>))"

text \<open>\<^verbatim>\<open>target(name)\<close> opens a target scope (\<open>target_begin\<close> here).\<close>

definition target_begin :: "state \<Rightarrow> string \<Rightarrow> state" where
  "target_begin st name =
     (let st1 = st\<lparr>xmake_sh_target_current := name\<rparr>
      in if \<not> loading_targets st1 then st1
         else
           (let st2 = (if \<not> map_has (js_maps st1) ''targets'' (name @ ''_name'')
                       then st1\<lparr>xmake_sh_targets := xmake_sh_targets st1 @ '' '' @ name\<rparr>
                       else st1)
            in st2\<lparr>js_maps := map_set (js_maps st2) ''targets'' (name @ ''_name'') (JStr name)\<rparr>))"

definition target_end :: "state \<Rightarrow> state" where
  "target_end st = st\<lparr>xmake_sh_target_current := []\<rparr>"

definition set_kind :: "state \<Rightarrow> string \<Rightarrow> error + state" where
  "set_kind st kind =
     (if \<not> loading_targets st then Inr st
      else
        (let st1 = set_target_item st (xmake_sh_target_current st) ''kind'' (JStr kind)
         in if kind = ''binary'' then Inr (st1\<lparr>targets_toolkinds := targets_toolkinds st1 @ '' ld''\<rparr>)
            else if kind = ''static'' then Inr (st1\<lparr>targets_toolkinds := targets_toolkinds st1 @ '' ar''\<rparr>)
            else if kind = ''shared'' then Inr (st1\<lparr>targets_toolkinds := targets_toolkinds st1 @ '' sh''\<rparr>)
            else Inl (Raise (''unknown target kind '' @ kind))))"


definition set_basename :: "state \<Rightarrow> jsval \<Rightarrow> state" where
  "set_basename st basename =
     (if \<not> loading_targets st then st
      else set_target_item st (xmake_sh_target_current st) ''basename'' basename)"

fun add_deps :: "state \<Rightarrow> string list \<Rightarrow> state" where
  "add_deps st [] = st"
| "add_deps st (dep # args) =
     (if \<not> loading_targets st then st
      else add_deps (add_target_item st (xmake_sh_target_current st) ''deps'' (JStr dep)) args)"







section \<open>Library dependencies\<close>

text \<open>
  \<^verbatim>\<open>_dedup_reverse\<close>: the words are visited from the last to the first and a word not
  yet kept is put in front (\<^verbatim>\<open>unshift\<close>).
\<close>

definition dedup_reverse :: "string \<Rightarrow> string" where
  "dedup_reverse str =
     (let ws = nonempty_words str;
          deduped = fold (\<lambda>word deduped. if word \<in> set deduped then deduped else word # deduped) (rev ws) []
      in js_join '' '' deduped)"

text \<open>
  \<^verbatim>\<open>_get_target_librarydeps_impl\<close> calls itself for every library dependency and does
  not return on a cycle of dependencies. The model counts the depth of the calls in
  \<open>fuel\<close> and answers \<open>None\<close> when it is used up. \<open>librarydeps_loop\<close> is the
  \<^verbatim>\<open>for\<close> loop over the dependencies, \<open>rec\<close> the recursive call.
\<close>

fun librarydeps_loop ::
  "(string \<Rightarrow> (error + string) option) \<Rightarrow> state \<Rightarrow> string list \<Rightarrow> string \<Rightarrow> (error + string) option" where
  "librarydeps_loop rec st [] librarydeps = Some (Inr librarydeps)"
| "librarydeps_loop rec st (dep # deps) librarydeps =
     (let dep_kind = get_target_item st dep ''kind''
      in if test_eq dep_kind (JStr ''static'') \<or> test_eq dep_kind (JStr ''shared'')
         then (case rec dep of
                 None \<Rightarrow> None
               | Some (Inl e) \<Rightarrow> Some (Inl e)
               | Some (Inr dep_librarydeps) \<Rightarrow>
                   librarydeps_loop rec st deps
                     (if test_nz (JStr dep_librarydeps)
                      then (librarydeps @ '' '' @ dep) @ '' '' @ dep_librarydeps
                      else librarydeps @ '' '' @ dep))
         else librarydeps_loop rec st deps librarydeps)"

primrec get_target_librarydeps_impl :: "nat \<Rightarrow> state \<Rightarrow> string \<Rightarrow> (error + string) option" where
  "get_target_librarydeps_impl 0 st name = None"
| "get_target_librarydeps_impl (Suc fuel) st name =
     (case string_to_array (get_target_item st name ''deps'') of
        Inl e \<Rightarrow> Some (Inl e)
      | Inr deps \<Rightarrow> librarydeps_loop (get_target_librarydeps_impl fuel st) st deps [])"

text \<open>
  \<^verbatim>\<open>_get_target_librarydeps\<close>: the list is computed once and kept in the attribute
  \<^verbatim>\<open>librarydeps\<close>, with \<^verbatim>\<open>__none__\<close> standing for the computed empty list.
\<close>

definition get_target_librarydeps :: "nat \<Rightarrow> state \<Rightarrow> string \<Rightarrow> (error + jsval \<times> state) option" where
  "get_target_librarydeps fuel st name =
     (let librarydeps = get_target_item st name ''librarydeps''
      in if test_z librarydeps \<and> test_nq librarydeps (JStr ''__none__'')
         then (case get_target_librarydeps_impl fuel st name of
                 None \<Rightarrow> None
               | Some (Inl e) \<Rightarrow> Some (Inl e)
               | Some (Inr l) \<Rightarrow>
                   if test_nz (JStr l)
                   then (let l' = dedup_reverse l
                         in Some (Inr (if test_eq (JStr l') (JStr ''__none__'') then JStr [] else JStr l',
                                       set_target_item st name ''librarydeps'' (JStr l'))))
                   else Some (Inr (JStr [], set_target_item st name ''librarydeps'' (JStr ''__none__''))))
         else Some (Inr (if test_eq librarydeps (JStr ''__none__'') then JStr [] else librarydeps, st)))"

section \<open>Flags of a target\<close>

text \<open>
  The \<^verbatim>\<open>reduce\<close> of \<^verbatim>\<open>_get_target_abstract_flags\<close>: the public values of every
  library dependency are appended, each as one array element.
\<close>

fun depvalues_loop :: "state \<Rightarrow> string \<Rightarrow> string list \<Rightarrow> string list \<Rightarrow> string list" where
  "depvalues_loop st itemname [] vals = vals"
| "depvalues_loop st itemname (dep # deps) vals =
     (let dep_kind = get_target_item st dep ''kind''
      in if test_eq dep_kind (JStr ''static'') \<or> test_eq dep_kind (JStr ''shared'')
         then (let depvalues = get_target_item st dep (itemname @ ''_public'')
               in if test_nz depvalues
                  then depvalues_loop st itemname deps (vals @ [js_to_string depvalues])
                  else depvalues_loop st itemname deps vals)
         else depvalues_loop st itemname deps vals)"

definition get_target_abstract_flags ::
  "nat \<Rightarrow> state \<Rightarrow> string \<Rightarrow> string \<Rightarrow> string \<Rightarrow> string \<Rightarrow> jsval \<Rightarrow> (error + string \<times> state) option" where
  "get_target_abstract_flags fuel st name toolkind toolname itemname vals =
     (let vals0 = (case vals of JUndefined \<Rightarrow> JStr [] | v \<Rightarrow> v)
      in if strict_eq vals0 (JStr [])
         then
           (let vals1 = (case get_target_item st name itemname of JUndefined \<Rightarrow> JArr [] | v \<Rightarrow> v)
            in case get_target_librarydeps fuel st name of
                 None \<Rightarrow> None
               | Some (Inl e) \<Rightarrow> Some (Inl e)
               | Some (Inr (deps, st')) \<Rightarrow>
                   Some (bind_err (string_to_array deps) (\<lambda>dep_list.
                         bind_err (string_to_array vals1) (\<lambda>own.
                         bind_err (get_abstract_flags st' toolkind toolname itemname
                                     (JStr (js_join '' '' (depvalues_loop st' itemname dep_list own)))) (\<lambda>flags.
                           Inr (flags, st'))))))
         else Some (bind_err (get_abstract_flags st toolkind toolname itemname vals0) (\<lambda>flags.
                      Inr (flags, st))))"

definition get_target_toolchain_flags_for_ar :: string where
  "get_target_toolchain_flags_for_ar = ''-cr''"

definition get_target_toolchain_flags_for_gcc :: "state \<Rightarrow> string \<Rightarrow> string \<Rightarrow> string" where
  "get_target_toolchain_flags_for_gcc st name toolkind =
     (let flags = (if is_arch st [''i386''] then ''-m32'' else []);
          targetkind = get_target_item st name ''kind''
      in if test_eq targetkind (JStr ''shared'') \<and> test_eq (JStr toolkind) (JStr ''sh'')
         then ''-shared -fPIC'' else flags)"

definition get_target_toolchain_flags_for_clang :: "state \<Rightarrow> string \<Rightarrow> string \<Rightarrow> string" where
  "get_target_toolchain_flags_for_clang st name toolkind =
     (let flags = (if is_arch st [''i386''] then ''-m32'' else ''-Qunused-arguments'');
          targetkind = get_target_item st name ''kind''
      in if test_eq targetkind (JStr ''shared'') \<and> test_eq (JStr toolkind) (JStr ''sh'')
         then ''-shared -fPIC'' else flags)"

definition get_target_toolchain_flags :: "state \<Rightarrow> string \<Rightarrow> string \<Rightarrow> string \<Rightarrow> error + string" where
  "get_target_toolchain_flags st name toolkind toolname =
     (if toolname = ''gcc'' then Inr (get_target_toolchain_flags_for_gcc st name toolkind)
      else if toolname = ''gxx'' then Inr (get_target_toolchain_flags_for_gcc st name toolkind)
      else if toolname = ''clang'' then Inr (get_target_toolchain_flags_for_clang st name toolkind)
      else if toolname = ''clangxx'' then Inr (get_target_toolchain_flags_for_clang st name toolkind)
      else if toolname = ''ar'' then Inr get_target_toolchain_flags_for_ar
      else Inl (Throw (''unknown toolname('' @ toolname @ '')!'')))"

fun compiler_flags_loop ::
  "nat \<Rightarrow> state \<Rightarrow> string \<Rightarrow> string \<Rightarrow> string \<Rightarrow> string list \<Rightarrow> string \<Rightarrow> (error + string \<times> state) option" where
  "compiler_flags_loop fuel st name toolkind toolname [] result = Some (Inr (result, st))"
| "compiler_flags_loop fuel st name toolkind toolname (itemname # itemnames) result =
     (case get_target_abstract_flags fuel st name toolkind toolname itemname JUndefined of
        None \<Rightarrow> None
      | Some (Inl e) \<Rightarrow> Some (Inl e)
      | Some (Inr (flags, st')) \<Rightarrow>
          compiler_flags_loop fuel st' name toolkind toolname itemnames
            (if test_nz (JStr flags) then result @ '' '' @ flags else result))"

text \<open>The raw flags at the end of \<^verbatim>\<open>_get_target_compiler_flags\<close>.\<close>

definition compiler_raw_flags :: "state \<Rightarrow> string \<Rightarrow> string \<Rightarrow> string \<Rightarrow> string" where
  "compiler_raw_flags st name flagname result =
     (let flags = get_target_item st name flagname;
          result1 = (if test_nz flags then result @ '' '' @ js_to_string flags else result)
      in if test_eq (JStr flagname) (JStr ''cflags'') \<or> test_eq (JStr flagname) (JStr ''cxxflags'')
         then (let flags' = get_target_item st name ''cxflags''
               in if test_nz flags' then result1 @ '' '' @ js_to_string flags' else result1)
         else if test_eq (JStr flagname) (JStr ''mflags'') \<or> test_eq (JStr flagname) (JStr ''mxxflags'')
         then (let flags' = get_target_item st name ''mxflags''
               in if test_nz flags' then result1 @ '' '' @ js_to_string flags' else result1)
         else result1)"

definition get_target_compiler_flags ::
  "nat \<Rightarrow> state \<Rightarrow> string \<Rightarrow> string \<Rightarrow> (error + string \<times> state) option" where
  "get_target_compiler_flags fuel st name toolkind =
     (let program = get_toolchain_toolset st (target_toolchain st) toolkind
      in case path_toolname program of
           Inl e \<Rightarrow> Some (Inl e)
         | Inr toolname \<Rightarrow>
             (case get_target_toolchain_flags st name toolkind toolname of
                Inl e \<Rightarrow> Some (Inl e)
              | Inr toolchain_flags \<Rightarrow>
                  (case compiler_flags_loop fuel st name toolkind toolname
                          [''symbols'', ''optimizes'', ''warnings'', ''languages'', ''defines'',
                           ''undefines'', ''includedirs'', ''frameworkdirs'', ''frameworks'']
                          (if test_nz (JStr toolchain_flags) then [] @ '' '' @ toolchain_flags else []) of
                     None \<Rightarrow> None
                   | Some (Inl e) \<Rightarrow> Some (Inl e)
                   | Some (Inr (result, st')) \<Rightarrow>
                       Some (bind_err (get_flagname toolkind) (\<lambda>flagname.
                               Inr (compiler_raw_flags st' name flagname result, st'))))))"

text \<open>\<^verbatim>\<open>add_udefines\<close>, with its two loops over the arguments in the target scope.\<close>

fun add_udefines_private :: "state \<Rightarrow> string list \<Rightarrow> state" where
  "add_udefines_private st [] = st"
| "add_udefines_private st (udefine # args) =
     (if test_nq (JStr udefine) (JStr ''{public}'')
      then add_udefines_private (add_target_item st (xmake_sh_target_current st) ''udefines'' (JStr udefine)) args
      else add_udefines_private st args)"

fun add_udefines_public :: "state \<Rightarrow> string list \<Rightarrow> state" where
  "add_udefines_public st [] = st"
| "add_udefines_public st (udefine # args) =
     (if test_nq (JStr udefine) (JStr ''{public}'')
      then add_udefines_public
             (add_target_item st (xmake_sh_target_current st) ''undefines_public'' (JStr udefine)) args
      else add_udefines_public st args)"

fun add_udefines_option :: "state \<Rightarrow> string list \<Rightarrow> error + state" where
  "add_udefines_option st [] = Inr st"
| "add_udefines_option st (udefine # args) =
     bind_err (add_option_item st (xmake_sh_option_current st) ''udefines'' (JStr udefine)) (\<lambda>st'.
       add_udefines_option st' args)"

definition add_udefines :: "state \<Rightarrow> string list \<Rightarrow> error + state" where
  "add_udefines st args =
     (if loading_targets st \<and> test_z (JStr (xmake_sh_option_current st))
      then (let st1 = add_udefines_private st args;
                public = (\<exists>udefine \<in> set args. \<not> test_nq (JStr udefine) (JStr ''{public}''))
            in if public then Inr (add_udefines_public st1 args) else Inr st1)
      else if loading_options st \<and> test_nz (JStr (xmake_sh_option_current st))
      then add_udefines_option st args
      else Inr st)"

text \<open>\<^verbatim>\<open>add_defines\<close>, written like \<^verbatim>\<open>add_udefines\<close>.\<close>

fun add_defines_private :: "state \<Rightarrow> string list \<Rightarrow> state" where
  "add_defines_private st [] = st"
| "add_defines_private st (define # args) =
     (if test_nq (JStr define) (JStr ''{public}'')
      then add_defines_private (add_target_item st (xmake_sh_target_current st) ''defines'' (JStr define)) args
      else add_defines_private st args)"

fun add_defines_public :: "state \<Rightarrow> string list \<Rightarrow> state" where
  "add_defines_public st [] = st"
| "add_defines_public st (define # args) =
     (if test_nq (JStr define) (JStr ''{public}'')
      then add_defines_public
             (add_target_item st (xmake_sh_target_current st) ''defines_public'' (JStr define)) args
      else add_defines_public st args)"

fun add_defines_option :: "state \<Rightarrow> string list \<Rightarrow> error + state" where
  "add_defines_option st [] = Inr st"
| "add_defines_option st (define # args) =
     bind_err (add_option_item st (xmake_sh_option_current st) ''defines'' (JStr define)) (\<lambda>st'.
       add_defines_option st' args)"

definition add_defines :: "state \<Rightarrow> string list \<Rightarrow> error + state" where
  "add_defines st args =
     (if loading_targets st \<and> test_z (JStr (xmake_sh_option_current st))
      then (let st1 = add_defines_private st args;
                public = (\<exists>define \<in> set args. \<not> test_nq (JStr define) (JStr ''{public}''))
            in if public then Inr (add_defines_public st1 args) else Inr st1)
      else if loading_options st \<and> test_nz (JStr (xmake_sh_option_current st))
      then add_defines_option st args
      else Inr st)"

text \<open>\<^verbatim>\<open>set_configvar\<close> and \<^verbatim>\<open>set_version\<close>.\<close>

definition set_configvar :: "state \<Rightarrow> string \<Rightarrow> jsval \<Rightarrow> state" where
  "set_configvar st name v =
     (if \<not> loading_targets st then st
      else add_target_item
             (set_target_item st (xmake_sh_target_current st) (''configvar_'' @ name) v)
             (xmake_sh_target_current st) ''configvars'' (JStr name))"

definition set_version :: "state \<Rightarrow> jsval \<Rightarrow> jsval \<Rightarrow> state" where
  "set_version st version version_build =
     (if \<not> loading_targets st then st
      else set_target_item
             (set_target_item st (xmake_sh_target_current st) ''version'' version)
             (xmake_sh_target_current st) ''version_build'' version_build)"

section \<open>Initial state and example configurations\<close>

text \<open>The module-level variables as the script initialises them.\<close>

definition init_state :: state where
  "init_state = \<lparr>
     js_maps = Map.empty,
     loading_toolchains = True, loading_options = True, loading_targets = True,
     xmake_sh_options = [], xmake_sh_targets = [],
     xmake_sh_option_current = [], xmake_sh_target_current = [],
     xmake_sh_buildir = ''build'', xmake_sh_verbose = False, xmake_sh_diagnosis = False,
     target_plat = [], target_arch = [], target_mode = [], target_toolchain = [],
     project_generator = ''gmake'', make_program = [], ninja_program = [],
     install_prefix_default = ''/usr/local'', install_bindir_default = ''bin'',
     install_libdir_default = ''lib'', install_includedir_default = ''include'',
     targets_toolkinds = [], os_log = [] \<rparr>"

text \<open>An environment in which every command succeeds.\<close>

definition friendly_env :: env where
  "friendly_env = \<lparr> os_exec = (\<lambda>cmd. Inr True), os_output = (\<lambda>cmd. []),
                     os_tmpname = ''/tmp/tmp-1'', os_today = ''20230101T0000'' \<rparr>"

text \<open>
  The phase of \<^verbatim>\<open>_load_options_and_toolchains\<close>, and the options of the example
  project of the repository: \<^verbatim>\<open>option("tests", "Enable tests.", true)\<close> and
  \<^verbatim>\<open>option("pthread"); add_cincludes("pthread.h"); add_cfuncs("pthread_create"); option_end()\<close>.
\<close>

definition loading_options_state :: state where
  "loading_options_state =
     init_state\<lparr>loading_options := True, loading_toolchains := True, loading_targets := False\<rparr>"

definition example_options :: "error + state" where
  "example_options =
     (let st1 = option_begin loading_options_state ''tests'' (JStr ''Enable tests.'') (JBool True);
          st2 = option_begin st1 ''pthread'' JUndefined JUndefined
      in bind_err (add_cincludes st2 (JStr ''pthread.h'')) (\<lambda>st3.
         bind_err (add_cfuncs st3 (JStr ''pthread_create'')) (\<lambda>st4.
           Inr (option_end st4))))"

text \<open>The detected toolchain: gcc compiles C, g++ compiles C++ and links.\<close>

definition with_gcc :: "state \<Rightarrow> error + state" where
  "with_gcc st =
     bind_err (set_toolchain_toolset (toolchain_begin st ''gcc'') ''gcc'' ''cc'' (JStr ''gcc'')) (\<lambda>st1.
     bind_err (set_toolchain_toolset st1 ''gcc'' ''cxx'' (JStr ''g++'')) (\<lambda>st2.
     bind_err (set_toolchain_toolset st2 ''gcc'' ''ld'' (JStr ''g++'')) (\<lambda>st3.
       Inr (st3\<lparr>target_toolchain := ''gcc'', target_plat := ''linux'', target_arch := ''x86_64'',
                target_mode := ''release''\<rparr>))))"

text \<open>The phase of \<^verbatim>\<open>_check_all\<close>: nothing is being loaded.\<close>

definition detection_phase :: "state \<Rightarrow> state" where
  "detection_phase st = st\<lparr>loading_options := False, loading_toolchains := False, loading_targets := False\<rparr>"

definition targets_phase :: "state \<Rightarrow> state" where
  "targets_phase st = st\<lparr>loading_options := False, loading_toolchains := False, loading_targets := True,
                          xmake_sh_option_current := [], xmake_sh_target_current := []\<rparr>"

text \<open>What a script leaves behind: its final state, or the initial one if it fails.\<close>

definition run_or_init :: "error + state \<Rightarrow> state" where
  "run_or_init r = (case r of Inl e \<Rightarrow> init_state | Inr st \<Rightarrow> st)"

definition commands_run :: "state \<Rightarrow> string list" where
  "commands_run st = concat (map (\<lambda>e. case e of RunCmd c \<Rightarrow> [c] | _ \<Rightarrow> []) (os_log st))"

text \<open>The example options with the gcc toolchain detected, ready for \<^verbatim>\<open>_check_options\<close>.\<close>

definition probe_state :: state where
  "probe_state = run_or_init (bind_err (bind_err example_options with_gcc) (\<lambda>st. Inr (detection_phase st)))"

text \<open>The same run with \<^verbatim>\<open>--tests=no\<close> on the command line.\<close>

definition cli_override_state :: state where
  "cli_override_state =
     run_or_init (bind_err (bind_err (bind_err example_options (\<lambda>st. handle_arguments st [''--tests=no'']))
                    with_gcc) (\<lambda>st. Inr (detection_phase st)))"

text \<open>
  The phase of \<^verbatim>\<open>_load_targets\<close> on linux: a static library \<^verbatim>\<open>foo\<close>, and a binary
  \<^verbatim>\<open>demo\<close> with an explicit file name.
\<close>

definition loading_targets_state :: state where
  "loading_targets_state =
     targets_phase (init_state\<lparr>target_plat := ''linux'', target_arch := ''x86_64'', target_mode := ''release''\<rparr>)"


text \<open>
  A diamond of libraries: \<^verbatim>\<open>app\<close> depends on \<^verbatim>\<open>a\<close> and \<^verbatim>\<open>b\<close>, and \<^verbatim>\<open>b\<close> on
  \<^verbatim>\<open>a\<close>; \<^verbatim>\<open>a\<close> registers \<^verbatim>\<open>add_udefines("{public}", "FOO")\<close>. The gcc toolchain is
  detected.
\<close>

definition example_diamond :: state where
  "example_diamond =
     run_or_init
       (bind_err (with_gcc loading_targets_state) (\<lambda>st0.
        bind_err (set_kind (target_begin (targets_phase st0) ''a'') ''static'') (\<lambda>st1.
        bind_err (add_udefines st1 [''{public}'', ''FOO'']) (\<lambda>st2.
        bind_err (set_kind (add_deps (target_begin (target_end st2) ''b'') [''a'']) ''static'') (\<lambda>st3.
        bind_err (set_kind (add_deps (target_begin (target_end st3) ''app'') [''a'', ''b'']) ''binary'') (\<lambda>st4.
          Inr (target_end st4)))))))"

text \<open>
  Inside the scope of the static library \<^verbatim>\<open>a\<close>, after \<^verbatim>\<open>add_defines("BAR")\<close>, with
  the gcc toolchain detected.
\<close>

definition example_scope :: state where
  "example_scope =
     run_or_init
       (bind_err (with_gcc loading_targets_state) (\<lambda>st0.
        bind_err (set_kind (target_begin (targets_phase st0) ''a'') ''static'') (\<lambda>st1.
          add_defines st1 [''BAR''])))"

section \<open>Vocabulary of the statements\<close>

text \<open>The case labels of the translator's \<^verbatim>\<open>switch\<close> statements.\<close>

definition known_itemnames :: "string list" where
  "known_itemnames =
     [''defines'', ''udefines'', ''includedirs'', ''linkdirs'', ''links'', ''syslinks'',
      ''frameworks'', ''frameworkdirs'', ''rpathdirs'', ''symbols'', ''strip'', ''warnings'',
      ''optimizes'', ''languages'']"

definition gcc_clang_family :: "string list" where
  "gcc_clang_family = [''gcc'', ''gxx'', ''clang'', ''clangxx'']"

text \<open>
  The values an item's inner \<^verbatim>\<open>switch\<close> or \<^verbatim>\<open>if\<close> chain lists; the items that
  paste their value into the flag accept every value.
\<close>

definition recognised_value :: "string \<Rightarrow> string \<Rightarrow> string \<Rightarrow> bool" where
  "recognised_value toolkind itemname v =
     (if itemname = ''symbols'' then v \<in> set [''debug'', ''hidden'']
      else if itemname = ''strip'' then v \<in> set [''debug'', ''all'']
      else if itemname = ''warnings''
      then v \<in> set [''all'', ''more'', ''less'', ''allextra'', ''error'', ''everything'', ''none'']
      else if itemname = ''optimizes''
      then v \<in> set [''fast'', ''faster'', ''fastest'', ''smallest'', ''aggressive'', ''none'']
      else if itemname = ''languages''
      then (toolkind \<in> set [''cc'', ''mm''] \<and> v \<in> set (map fst c_languages))
         \<or> (toolkind \<in> set [''cxx'', ''mxx''] \<and> v \<in> set (map fst cxx_languages))
      else True)"

text \<open>
  The vocabulary of the dependency graph: a library is a target of kind \<^verbatim>\<open>static\<close> or
  \<^verbatim>\<open>shared\<close>, as the tests of the code read it; the dependencies of a target are the
  words of its \<^verbatim>\<open>deps\<close> attribute.
\<close>

definition is_library :: "state \<Rightarrow> string \<Rightarrow> bool" where
  "is_library st dep =
     (test_eq (get_target_item st dep ''kind'') (JStr ''static'')
      \<or> test_eq (get_target_item st dep ''kind'') (JStr ''shared''))"

definition target_deps :: "state \<Rightarrow> string \<Rightarrow> string list" where
  "target_deps st name =
     (case string_to_array (get_target_item st name ''deps'') of Inl e \<Rightarrow> [] | Inr deps \<Rightarrow> deps)"

definition library_deps :: "state \<Rightarrow> string \<Rightarrow> string list" where
  "library_deps st name = filter (is_library st) (target_deps st name)"

text \<open>
  The depth-first enumeration of the library dependencies, written on lists: every
  library dependency, in the order of \<^verbatim>\<open>deps\<close>, followed by its own enumeration.
  \<open>None\<close> when the depth \<open>fuel\<close> does not suffice.
\<close>

primrec dfs_library_deps :: "nat \<Rightarrow> state \<Rightarrow> string \<Rightarrow> string list option" where
  "dfs_library_deps 0 st name = None"
| "dfs_library_deps (Suc fuel) st name =
     map_option concat
       (those (map (\<lambda>dep. map_option (\<lambda>ws. dep # ws) (dfs_library_deps fuel st dep))
                 (library_deps st name)))"

text \<open>Removing duplicates so that the first occurrence of every word survives.\<close>

definition dedup_first :: "string list \<Rightarrow> string list" where
  "dedup_first ws = rev (remdups (rev ws))"

text \<open>
  The \<^verbatim>\<open>deps\<close> attributes are strings (or unset), as \<^verbatim>\<open>add_deps\<close> writes them: no
  array and no other value stands there.
\<close>

definition is_text :: "jsval \<Rightarrow> bool" where
  "is_text v = (case v of JUndefined \<Rightarrow> True | JStr s \<Rightarrow> True | _ \<Rightarrow> False)"

definition deps_are_strings :: "state \<Rightarrow> bool" where
  "deps_are_strings st = (\<forall>name. is_text (get_target_item st name ''deps''))"

text \<open>The words of a computed list, as \<^verbatim>\<open>_dedup_reverse\<close> itself splits a list.\<close>

definition list_words :: "jsval \<Rightarrow> string list" where
  "list_words v = nonempty_words (js_to_string v)"

text \<open>
  Two states that are the same but for the attributes \<^verbatim>\<open>udefines\<close> and
  \<^verbatim>\<open>undefines_public\<close> of the target \<open>cur\<close>, where the second state may hold more
  text in \<^verbatim>\<open>undefines_public\<close> than the first.
\<close>

definition grows :: "jsval \<Rightarrow> jsval \<Rightarrow> bool" where
  "grows v1 v2 = (test_nz v1 \<longrightarrow> test_nz v2 \<and> set (js_to_string v1) \<subseteq> set (js_to_string v2))"

definition same_but_udefines :: "string \<Rightarrow> state \<Rightarrow> state \<Rightarrow> bool" where
  "same_but_udefines cur st1 st2 =
     (st2 = st1\<lparr>js_maps := js_maps st2\<rparr>
      \<and> (\<forall>n. n \<noteq> ''targets'' \<longrightarrow> js_maps st2 n = js_maps st1 n)
      \<and> (\<forall>k. k \<noteq> cur @ ''_udefines'' \<and> k \<noteq> cur @ ''_undefines_public'' \<longrightarrow>
             map_get (js_maps st2) ''targets'' k = map_get (js_maps st1) ''targets'' k
             \<and> map_has (js_maps st2) ''targets'' k = map_has (js_maps st1) ''targets'' k)
      \<and> grows (map_get (js_maps st1) ''targets'' (cur @ ''_undefines_public''))
               (map_get (js_maps st2) ''targets'' (cur @ ''_undefines_public''))
      \<and> (map_has (js_maps st1) ''targets'' (cur @ ''_undefines_public'') \<longrightarrow>
             map_has (js_maps st2) ''targets'' (cur @ ''_undefines_public'')))"

text \<open>The names \<^verbatim>\<open>_handle_option\<close> knows by itself.\<close>

definition builtin_arguments :: "string list" where
  "builtin_arguments =
     [''help'', ''version'', ''verbose'', ''diagnosis'', ''plat'', ''arch'', ''mode'', ''toolchain'',
      ''generator'', ''make'', ''ninja'', ''prefix'', ''bindir'', ''libdir'', ''includedir'', ''buildir'']"

text \<open>
  A list string whose only white space is the blank that separates its words: no
  name in it contains white space.
\<close>

definition blank_separated :: "string \<Rightarrow> bool" where
  "blank_separated s = list_all (\<lambda>c. if js_space c then c = CHR '' '' else True) s"

section \<open>Facts about words and blanks\<close>

lemma split_on_nonempty [simp]: "split_on sep s \<noteq> []"
  by (induction s) (auto split: list.splits)

lemma split_on_no_sep: "sep \<notin> set w \<Longrightarrow> split_on sep w = [w]"
  by (induction w) (auto split: list.splits)

lemma split_on_append: "sep \<notin> set w \<Longrightarrow> split_on sep (w @ sep # r) = w # split_on sep r"
  by (induction w) (auto split: list.splits)

lemma split_on_snoc: "split_on sep (s @ [sep]) = split_on sep s @ [[]]"
proof (induction s)
  case Nil
  show ?case by simp
next
  case (Cons c s)
  then show ?case by (cases "split_on sep s") auto
qed

lemma nonempty_words_Nil [simp]: "nonempty_words [] = []"
  by (simp add: nonempty_words_def)

lemma nonempty_words_blank [simp]: "nonempty_words (CHR '' '' # s) = nonempty_words s"
  by (simp add: nonempty_words_def)

lemma nonempty_words_snoc_blank [simp]: "nonempty_words (s @ '' '') = nonempty_words s"
  by (simp add: nonempty_words_def split_on_snoc)

lemma nonempty_words_word:
  "CHR '' '' \<notin> set w \<Longrightarrow> nonempty_words (w @ CHR '' '' # r) = (if w = [] then [] else [w]) @ nonempty_words r"
  by (simp add: nonempty_words_def split_on_append)

lemma nonempty_words_single:
  "CHR '' '' \<notin> set w \<Longrightarrow> nonempty_words w = (if w = [] then [] else [w])"
  by (simp add: nonempty_words_def split_on_no_sep)

lemma nonempty_words_dropWhile: "nonempty_words (dropWhile (\<lambda>c. c = CHR '' '') s) = nonempty_words s"
  by (induction s) auto

lemma nonempty_words_rev_dropWhile:
  "nonempty_words (rev (dropWhile (\<lambda>c. c = CHR '' '') (rev s))) = nonempty_words s"
proof (induction s rule: rev_induct)
  case Nil
  show ?case by simp
next
  case (snoc c s)
  then show ?case by (cases "c = CHR '' ''") auto
qed

lemma blank_separated_dropWhile:
  "blank_separated s \<Longrightarrow> dropWhile js_space s = dropWhile (\<lambda>c. c = CHR '' '') s"
  by (induction s) (auto simp: blank_separated_def js_space_def)

lemma blank_separated_append [simp]:
  "blank_separated (s @ t) = (blank_separated s \<and> blank_separated t)"
  by (simp add: blank_separated_def)

lemma blank_separated_rev [simp]: "blank_separated (rev s) = blank_separated s"
  by (simp add: blank_separated_def)

lemma blank_separated_dropWhile_closed: "blank_separated s \<Longrightarrow> blank_separated (dropWhile P s)"
  by (induction s) (auto simp: blank_separated_def)

lemma string_words_blank_separated:
  assumes "blank_separated s"
  shows "string_words s = nonempty_words s"
proof -
  let ?t = "dropWhile (\<lambda>c. c = CHR '' '') s"
  have 1: "dropWhile js_space s = ?t" using assms by (rule blank_separated_dropWhile)
  have "blank_separated (rev ?t)" using assms by (simp add: blank_separated_dropWhile_closed)
  then have 2: "dropWhile js_space (rev ?t) = dropWhile (\<lambda>c. c = CHR '' '') (rev ?t)"
    by (rule blank_separated_dropWhile)
  show ?thesis
    unfolding string_words_def js_trim_def 1 2
    by (simp add: nonempty_words_rev_dropWhile nonempty_words_dropWhile)
qed

text \<open>The words of a string are not empty and hold no blank.\<close>

lemma split_on_no_sep_in_words: "w \<in> set (split_on sep s) \<Longrightarrow> sep \<notin> set w"
proof (induction s arbitrary: w)
  case Nil
  then show ?case by simp
next
  case (Cons c s)
  then show ?case
    by (cases "split_on sep s") (auto split: if_splits)
qed

lemma nonempty_words_tokens: "w \<in> set (nonempty_words s) \<Longrightarrow> w \<noteq> [] \<and> CHR '' '' \<notin> set w"
  by (auto simp: nonempty_words_def dest: split_on_no_sep_in_words)

lemma concat_split_on: "set (concat (split_on sep s)) \<subseteq> set s"
proof (induction s)
  case Nil
  show ?case by simp
next
  case (Cons c s)
  then show ?case by (cases "split_on sep s") auto
qed

lemma nonempty_words_chars: "w \<in> set (nonempty_words s) \<Longrightarrow> set w \<subseteq> set s"
  using concat_split_on [of sep s for sep]
  by (fastforce simp: nonempty_words_def)

text \<open>Appending \<open>" " + word\<close> for each word, as the list-building loops do.\<close>

lemma nonempty_words_appended:
  assumes "\<forall>w \<in> set ws. w \<noteq> [] \<and> CHR '' '' \<notin> set w"
  shows "nonempty_words (concat (map (\<lambda>w. CHR '' '' # w) ws)) = ws"
  using assms
proof (induction ws)
  case Nil
  show ?case by simp
next
  case (Cons w ws)
  have "nonempty_words (w @ concat (map (\<lambda>w. CHR '' '' # w) ws)) = w # ws"
  proof (cases ws)
    case Nil
    with Cons.prems show ?thesis by (simp add: nonempty_words_single)
  next
    case (Cons v vs)
    with Cons.IH Cons.prems show ?thesis by (simp add: nonempty_words_word)
  qed
  then show ?case by simp
qed

section \<open>Facts about the store\<close>

lemma map_get_map_set:
  "map_get (map_set ms n k v) n' k' = (if n' = n \<and> k' = k then v else map_get ms n' k')"
  by (auto simp: map_get_def map_set_def split: option.splits)

lemma key_value_default: "m @ ''_value'' \<noteq> n @ ''_default''"
proof
  assume "m @ ''_value'' = n @ ''_default''"
  then have "last (m @ ''_value'') = last (n @ ''_default'')" by (rule arg_cong)
  then show False by simp
qed

lemma test_nz_default: "test_nz (case v of JUndefined \<Rightarrow> JStr [] | x \<Rightarrow> x) = test_nz v"
  by (cases v) (simp_all add: test_nz_def)

lemma test_nz_test_z: "test_nz v = (\<not> test_z v)"
  by (simp add: test_nz_def test_z_def)

section \<open>The prober changes the log only\<close>

lemma os_runv_maps: "os_runv ev st cmd = Inr (ok, st') \<Longrightarrow> js_maps st' = js_maps st"
  by (auto simp: os_runv_def split: sum.splits)

lemma bind_err_Inr: "bind_err r f = Inr y \<Longrightarrow> \<exists>x. r = Inr x \<and> f x = Inr y"
  by (cases r) (simp_all add: bind_err_def)

lemma os_effect_maps [simp]: "js_maps (os_effect st e) = js_maps st"
  by (simp add: os_effect_def)

lemma compile_maps:
  "check_cxsnippets_compile ev st name sourcekind objectfile sourcefile = Inr (ok, st') \<Longrightarrow> js_maps st' = js_maps st"
  unfolding check_cxsnippets_compile_def Let_def
  by (auto dest!: bind_err_Inr dest: os_runv_maps)

lemma link_maps:
  "check_cxsnippets_link ev st name binaryfile objectfile = Inr (ok, st') \<Longrightarrow> js_maps st' = js_maps st"
  unfolding check_cxsnippets_link_def Let_def
  by (auto dest!: bind_err_Inr dest: os_runv_maps)

lemma link_or_skip_maps:
  "(if c then check_cxsnippets_link ev st name binaryfile objectfile else Inr (ok, st)) = Inr (ok', st')
     \<Longrightarrow> js_maps st' = js_maps st"
  by (cases c) (auto dest: link_maps)

lemma check_cxsnippets_maps:
  assumes "check_cxsnippets ev st name kind = Inr (ok, st')"
  shows "js_maps st' = js_maps st"
proof (cases "test_z (get_option_item st name (kind @ ''funcs'')) \<and> test_z (get_option_item st name (kind @ ''includes''))
     \<and> test_z (get_option_item st name (kind @ ''types'')) \<and> test_z (get_option_item st name (kind @ ''snippets''))")
  case True
  with assms show ?thesis by (simp add: check_cxsnippets_def Let_def)
next
  case False
  with assms obtain sourcecode ok1 st1 ok2 st2 src obj bin c where
    1: "check_cxsnippets_compile ev (os_effect st (WriteFile src sourcecode)) name
          (if test_eq (JStr kind) (JStr ''cxx'') then ''cxx'' else ''cc'') obj src = Inr (ok1, st1)"
    and 2: "(if c then check_cxsnippets_link ev st1 name bin obj else Inr (ok1, st1)) = Inr (ok2, st2)"
    and 3: "st' = os_effect (os_effect (os_effect st2 (TryRemove src)) (TryRemove obj)) (TryRemove bin)"
    unfolding check_cxsnippets_def Let_def
    by (simp only: if_not_P split: if_splits) (auto dest!: bind_err_Inr)
  from compile_maps [OF 1] link_or_skip_maps [OF 2] 3 show ?thesis by simp
qed

lemma check_option_maps:
  assumes "check_option ev st name = Inr (ok, st')"
  shows "js_maps st' = js_maps st"
proof -
  from assms obtain ok1 st1 where
    1: "check_cxsnippets ev st name ''c'' = Inr (ok1, st1)"
    and 2: "(if ok1 then check_cxsnippets ev st1 name ''cxx'' else Inr (False, st1)) = Inr (ok, st')"
    unfolding check_option_def check_csnippets_def check_cxxsnippets_def
    by (auto dest!: bind_err_Inr)
  show ?thesis
  proof (cases ok1)
    case True
    with 2 have "check_cxsnippets ev st1 name ''cxx'' = Inr (ok, st')" by simp
    from check_cxsnippets_maps [OF this] check_cxsnippets_maps [OF 1] show ?thesis by simp
  next
    case False
    with 2 have "st' = st1" by simp
    with check_cxsnippets_maps [OF 1] show ?thesis by simp
  qed
qed

lemma get_option_item_cong: "js_maps st' = js_maps st \<Longrightarrow> get_option_item st' n k = get_option_item st n k"
  by (simp add: get_option_item_def)

lemma set_option_value_other:
  assumes "set_option_value st m v = Inr st'" "m \<noteq> name"
  shows "get_option_item st' name ''value'' = get_option_item st name ''value''"
    and "get_option_item st' name ''default'' = get_option_item st name ''default''"
  using assms key_value_default [of m name]
  by (auto simp: set_option_value_def set_option_item_def get_option_item_def map_get_map_set split: if_splits)

lemma check_options_loop_frame:
  assumes "check_options_loop ev st names = Inr st'" "name \<notin> set names"
  shows "get_option_item st' name ''value'' = get_option_item st name ''value''
       \<and> get_option_item st' name ''default'' = get_option_item st name ''default''"
  using assms
proof (induction names arbitrary: st)
  case Nil
  then show ?case by simp
next
  case (Cons m names)
  from Cons.prems(1) obtain ok st1 st2 where
    c: "check_option ev st m = Inr (ok, st1)" and s: "set_option_value st1 m (JBool ok) = Inr st2"
    and r: "check_options_loop ev st2 names = Inr st'"
    by (auto dest!: bind_err_Inr)
  from Cons.prems(2) have ne: "m \<noteq> name" and nin: "name \<notin> set names" by auto
  from check_option_maps [OF c] have m1: "js_maps st1 = js_maps st" .
  from Cons.IH [OF r nin] set_option_value_other [OF s ne] get_option_item_cong [OF m1]
  show ?case by simp
qed

section \<open>The list of options to check\<close>

lemma options_for_checking_loop_eq:
  "options_for_checking_loop st names acc =
     acc @ concat (map (\<lambda>w. CHR '' '' # w)
       (filter (\<lambda>n. \<not> js_truthy (get_option_item st n ''showmenu'') \<and> option_need_checking st n) names))"
  by (induction names arbitrary: acc) (simp_all add: Let_def)

lemma blank_separated_words:
  "blank_separated s \<Longrightarrow> w \<in> set (nonempty_words s) \<Longrightarrow> blank_separated w"
  using nonempty_words_chars [of w s]
  by (auto simp: blank_separated_def list_all_iff)

lemma blank_separated_appended:
  "\<forall>w \<in> set ws. blank_separated w \<Longrightarrow> blank_separated (concat (map (\<lambda>w. CHR '' '' # w) ws))"
  by (induction ws) (auto simp: blank_separated_def js_space_def)

lemma options_for_checking_words:
  assumes "blank_separated (xmake_sh_options st)"
  shows "string_words (get_options_for_checking st) =
     filter (\<lambda>n. \<not> js_truthy (get_option_item st n ''showmenu'') \<and> option_need_checking st n)
       (string_words (xmake_sh_options st))"
proof -
  let ?names = "nonempty_words (xmake_sh_options st)"
  let ?P = "\<lambda>n. \<not> js_truthy (get_option_item st n ''showmenu'') \<and> option_need_checking st n"
  have names: "string_words (xmake_sh_options st) = ?names"
    using assms by (rule string_words_blank_separated)
  have built: "get_options_for_checking st = concat (map (\<lambda>w. CHR '' '' # w) (filter ?P ?names))"
    by (simp add: get_options_for_checking_def names options_for_checking_loop_eq)
  have "blank_separated (concat (map (\<lambda>w. CHR '' '' # w) (filter ?P ?names)))"
    using assms by (intro blank_separated_appended) (auto intro: blank_separated_words)
  then have "string_words (get_options_for_checking st) = nonempty_words (get_options_for_checking st)"
    unfolding built by (rule string_words_blank_separated)
  also have "\<dots> = filter ?P ?names"
    unfolding built by (rule nonempty_words_appended) (auto dest: nonempty_words_tokens)
  finally show ?thesis by (simp add: names)
qed

lemma default_no_checking:
  "test_nz (get_option_item st name ''default'') \<Longrightarrow> \<not> option_need_checking st name"
  by (simp add: option_need_checking_def Let_def test_nz_default)

section \<open>The predicates on options (C9)\<close>

text \<open>
  Claim C9. For every option name and every value, \<^verbatim>\<open>has_config(name)\<close> and
  \<^verbatim>\<open>is_config(name, value)\<close> return false whenever they are called outside the
  targets-loading phase, whatever the option's stored value or default; during the
  targets-loading phase they consult the resolved option value, which is the stored
  value, or the default when no value is set (unset or the empty string).
\<close>

theorem config_predicates_gated:
  "(\<not> loading_targets st \<longrightarrow> has_config st name = False \<and> is_config st name v = False)
   \<and> (loading_targets st \<longrightarrow>
        has_config st name =
          is_enabled (if test_z (get_option_item st name ''value'')
                      then get_option_item st name ''default'' else get_option_item st name ''value'')
      \<and> is_config st name v =
          strict_eq (if test_z (get_option_item st name ''value'')
                     then get_option_item st name ''default'' else get_option_item st name ''value'') v)"
  by (simp add: has_config_def is_config_def get_option_value_def Let_def)

text \<open>
  The example option \<^verbatim>\<open>tests\<close> (default \<^verbatim>\<open>true\<close>) in the detection phase and in
  the targets-loading phase.
\<close>

theorem config_predicates_gated_witness:
  "\<not> loading_targets probe_state
   \<and> get_option_item probe_state ''tests'' ''default'' = JBool True
   \<and> has_config probe_state ''tests'' = False
   \<and> is_config probe_state ''tests'' (JBool True) = False
   \<and> loading_targets (targets_phase probe_state)
   \<and> has_config (targets_phase probe_state) ''tests'' = True
   \<and> is_config (targets_phase probe_state) ''tests'' (JBool True) = True"
proof -
  have 1: "\<not> loading_targets probe_state" by code_simp
  have 2: "get_option_item probe_state ''tests'' ''default'' = JBool True" by code_simp
  have 3: "loading_targets (targets_phase probe_state)" by code_simp
  have 4: "get_option_item (targets_phase probe_state) ''tests'' ''default'' = JBool True" by code_simp
  have 5: "get_option_item (targets_phase probe_state) ''tests'' ''value'' = JUndefined" by code_simp
  from config_predicates_gated [of probe_state "''tests''" "JBool True"] 1
  have a: "has_config probe_state ''tests'' = False \<and> is_config probe_state ''tests'' (JBool True) = False"
    by simp
  from config_predicates_gated [of "targets_phase probe_state" "''tests''" "JBool True"] 3
  have b: "has_config (targets_phase probe_state) ''tests'' = True
      \<and> is_config (targets_phase probe_state) ''tests'' (JBool True) = True"
    by (simp add: 4 5 test_z_def is_enabled_def)
  from 1 2 3 a b show ?thesis by simp
qed



section \<open>Exit codes (C4)\<close>

lemma handle_arguments_append:
  "handle_arguments st (pre @ args) =
     (case handle_arguments st pre of Inl e \<Rightarrow> Inl e | Inr st' \<Rightarrow> handle_arguments st' args)"
  by (induction pre arbitrary: st) (auto split: sum.splits prod.splits)

lemma handle_option_help: "parse_argument_name arg = ''help'' \<Longrightarrow> handle_option st arg = Inl (Exit 1)"
  by (simp add: handle_option_def Let_def test_eq_def show_usage_def)

lemma handle_option_version: "parse_argument_name arg = ''version'' \<Longrightarrow> handle_option st arg = Inl (Exit 2)"
  by (simp add: handle_option_def Let_def test_eq_def show_version_def)

lemma handle_option_unknown:
  assumes "parse_argument_name arg \<notin> set builtin_arguments" "\<not> has_option st (parse_argument_name arg)"
  shows "handle_option st arg = Inr (False, st)"
  using assms by (simp add: handle_option_def Let_def test_eq_def builtin_arguments_def)

text \<open>
  Claim C4, as the code has it. The process ends with code 0 when the argument loop
  and everything after it succeed, with code 1 when a later step raises or throws,
  with code 1 at the first argument that is neither a built-in name nor a registered
  option, with code 1 at \<^verbatim>\<open>--help\<close> (\<^verbatim>\<open>_show_usage\<close> ends with
  \<^verbatim>\<open>process.exit(1)\<close>) and with code 2 at \<^verbatim>\<open>--version\<close>.
\<close>

theorem exit_codes:
  "(handle_arguments st args = Inr st' \<and> rest st' = Inr st'' \<longrightarrow> configure_exit_code rest st args = 0)
   \<and> (handle_arguments st args = Inr st' \<and> rest st' = Inl (Raise msg) \<longrightarrow> configure_exit_code rest st args = 1)
   \<and> (handle_arguments st args = Inr st' \<and> rest st' = Inl (Throw msg) \<longrightarrow> configure_exit_code rest st args = 1)
   \<and> (handle_arguments st pre = Inr st' \<and> parse_argument_name arg \<notin> set builtin_arguments
        \<and> \<not> has_option st' (parse_argument_name arg)
        \<longrightarrow> configure_exit_code rest st (pre @ arg # post) = 1)
   \<and> (handle_arguments st pre = Inr st' \<and> parse_argument_name arg = ''help''
        \<longrightarrow> configure_exit_code rest st (pre @ arg # post) = 1)
   \<and> (handle_arguments st pre = Inr st' \<and> parse_argument_name arg = ''version''
        \<longrightarrow> configure_exit_code rest st (pre @ arg # post) = 2)"
  by (simp add: configure_exit_code_def bind_err_def handle_arguments_append
      handle_option_help handle_option_version handle_option_unknown)

text \<open>
  Runs of the initial state: \<^verbatim>\<open>--plat=linux\<close> alone with a generation that
  succeeds, raises or throws, then followed by an unknown option, by \<^verbatim>\<open>--help\<close>
  and by \<^verbatim>\<open>--version\<close>.
\<close>

theorem exit_codes_witness:
  "handle_arguments init_state [''--plat=linux''] = Inr (init_state\<lparr>target_plat := ''linux''\<rparr>)
   \<and> configure_exit_code Inr init_state [''--plat=linux''] = 0
   \<and> configure_exit_code (\<lambda>st. Inl (Raise ''make not found!'')) init_state [''--plat=linux''] = 1
   \<and> configure_exit_code (\<lambda>st. Inl (Throw ''toolchain not found!'')) init_state [''--plat=linux''] = 1
   \<and> parse_argument_name ''--bogus=1'' \<notin> set builtin_arguments
   \<and> \<not> has_option (init_state\<lparr>target_plat := ''linux''\<rparr>) (parse_argument_name ''--bogus=1'')
   \<and> configure_exit_code Inr init_state ([''--plat=linux''] @ ''--bogus=1'' # [''--help'']) = 1
   \<and> parse_argument_name ''--help'' = ''help''
   \<and> configure_exit_code Inr init_state ([''--plat=linux''] @ ''--help'' # []) = 1
   \<and> parse_argument_name ''--version'' = ''version''
   \<and> configure_exit_code Inr init_state ([''--plat=linux''] @ ''--version'' # []) = 2"
proof -
  let ?st = "init_state\<lparr>target_plat := ''linux''\<rparr>"
  have 1: "handle_arguments init_state [''--plat=linux''] = Inr ?st"
    by (simp add: handle_option_def Let_def parse_argument_name_def parse_argument_value_def test_eq_def)
  have 2: "parse_argument_name ''--bogus=1'' \<notin> set builtin_arguments" by code_simp
  have 3: "\<not> has_option ?st (parse_argument_name ''--bogus=1'')" by code_simp
  have 4: "parse_argument_name ''--help'' = ''help''" by code_simp
  have 5: "parse_argument_name ''--version'' = ''version''" by code_simp
  note e = exit_codes [where st = init_state and st' = ?st]
  from e [where args = "[''--plat=linux'']" and rest = Inr and st'' = ?st] 1
  have a: "configure_exit_code Inr init_state [''--plat=linux''] = 0" by simp
  from e [where args = "[''--plat=linux'']" and rest = "\<lambda>st. Inl (Raise ''make not found!'')"
      and msg = "''make not found!''"] 1
  have b: "configure_exit_code (\<lambda>st. Inl (Raise ''make not found!'')) init_state [''--plat=linux''] = 1" by simp
  from e [where args = "[''--plat=linux'']" and rest = "\<lambda>st. Inl (Throw ''toolchain not found!'')"
      and msg = "''toolchain not found!''"] 1
  have c: "configure_exit_code (\<lambda>st. Inl (Throw ''toolchain not found!'')) init_state [''--plat=linux''] = 1" by simp
  from e [where pre = "[''--plat=linux'']" and arg = "''--bogus=1''" and rest = Inr and post = "[''--help'']"] 1 2 3
  have d: "configure_exit_code Inr init_state ([''--plat=linux''] @ ''--bogus=1'' # [''--help'']) = 1" by simp
  from e [where pre = "[''--plat=linux'']" and arg = "''--help''" and rest = Inr and post = "[]"] 1 4
  have f: "configure_exit_code Inr init_state ([''--plat=linux''] @ ''--help'' # []) = 1" by simp
  from e [where pre = "[''--plat=linux'']" and arg = "''--version''" and rest = Inr and post = "[]"] 1 5
  have g: "configure_exit_code Inr init_state ([''--plat=linux''] @ ''--version'' # []) = 2" by simp
  from 1 2 3 4 5 a b c d f g show ?thesis by simp
qed

text \<open>
  Claim C4 as stated (code 2 after \<^verbatim>\<open>--help\<close>) fails: \<^verbatim>\<open>--help\<close> ends the
  process with code 1.
\<close>

theorem help_exit_code_counterexample:
  "configure_exit_code Inr init_state [''--help''] = 1 \<and> configure_exit_code Inr init_state [''--help''] \<noteq> 2"
  by code_simp


section \<open>Unknown inputs of the flag translator (C5)\<close>

lemma map_of_None_iff: "(map_of xs v = None) = (v \<notin> set (map fst xs))"
  by (simp add: map_of_eq_None_iff)

lemma flag_symbols:
  "get_abstract_flag_for_gcc_clang st tk tn ''symbols'' v =
     (if v = ''debug'' then Inr ''-g'' else if v = ''hidden'' then Inr ''-fvisibility=hidden'' else Inr [])"
  by (simp add: get_abstract_flag_for_gcc_clang_def)

lemma flag_strip:
  "get_abstract_flag_for_gcc_clang st tk tn ''strip'' v =
     (if v = ''debug'' then Inr ''-Wl,-S''
      else if v = ''all'' then (if is_plat st [''macosx''] then Inr ''-Wl,-x'' else Inr ''-s'')
      else Inr [])"
  by (simp add: get_abstract_flag_for_gcc_clang_def)

lemma flag_warnings:
  "get_abstract_flag_for_gcc_clang st tk tn ''warnings'' v =
     (if v = ''all'' \<or> v = ''more'' \<or> v = ''less'' then Inr ''-Wall''
      else if v = ''allextra'' then Inr ''-Wall -Wextra''
      else if v = ''error'' then Inr ''-Werror''
      else if v = ''everything'' then Inr ''-Wall -Wextra''
      else if v = ''none'' then Inr ''-w''
      else Inr [])"
  by (simp add: get_abstract_flag_for_gcc_clang_def)

lemma flag_optimizes:
  "get_abstract_flag_for_gcc_clang st tk tn ''optimizes'' v =
     (if v = ''fast'' then Inr ''-O1''
      else if v = ''faster'' then Inr ''-O2''
      else if v = ''fastest'' then Inr ''-O3''
      else if v = ''smallest''
      then (if tn = ''clang'' \<or> tn = ''clangxx'' then Inr ''-Oz'' else Inr ''-Os'')
      else if v = ''aggressive'' then Inr ''-Ofast''
      else if v = ''none'' then Inr ''-O0''
      else Inr [])"
  by (simp add: get_abstract_flag_for_gcc_clang_def)

lemma flag_languages:
  "get_abstract_flag_for_gcc_clang st tk tn ''languages'' v =
     (if tk = ''cc'' \<or> tk = ''mm''
      then (case map_of c_languages v of Some flag \<Rightarrow> Inr flag | None \<Rightarrow> Inr [])
      else if tk = ''cxx'' \<or> tk = ''mxx''
      then (case map_of cxx_languages v of
              Some flag \<Rightarrow> Inr flag
            | None \<Rightarrow>
                (if prefix ''cxx'' v then Inl (Throw (''unknown language value('' @ v @ '')!''))
                 else if prefix ''c++'' v then Inl (Throw (''unknown language value('' @ v @ '')!''))
                 else Inr []))
      else Inr [])"
  by (simp add: get_abstract_flag_for_gcc_clang_def)

lemma unknown_value:
  assumes tn: "toolname \<in> set gcc_clang_family" and item: "itemname \<in> set known_itemnames"
    and unk: "\<not> recognised_value toolkind itemname v"
  shows "get_abstract_flag st toolkind toolname itemname v =
     (if itemname = ''languages'' \<and> toolkind \<in> set [''cxx'', ''mxx''] \<and> (prefix ''cxx'' v \<or> prefix ''c++'' v)
      then Inl (Throw (''unknown language value('' @ v @ '')!''))
      else Inr [])"
proof -
  have fam: "get_abstract_flag st toolkind toolname item' v =
      get_abstract_flag_for_gcc_clang st toolkind toolname item' v" for item'
    using tn by (simp add: get_abstract_flag_def gcc_clang_family_def)
  have d: "itemname = ''symbols'' \<or> itemname = ''strip'' \<or> itemname = ''warnings''
      \<or> itemname = ''optimizes'' \<or> itemname = ''languages''"
  proof (rule ccontr)
    assume "\<not> ?thesis"
    then have "recognised_value toolkind itemname v" by (simp add: recognised_value_def)
    with unk show False by simp
  qed
  from d show ?thesis
  proof (elim disjE)
    assume sy: "itemname = ''symbols''"
    with unk show ?thesis unfolding fam by (simp add: flag_symbols recognised_value_def)
  next
    assume st: "itemname = ''strip''"
    with unk show ?thesis unfolding fam by (simp add: flag_strip recognised_value_def)
  next
    assume wa: "itemname = ''warnings''"
    with unk show ?thesis unfolding fam by (simp add: flag_warnings recognised_value_def)
  next
    assume op: "itemname = ''optimizes''"
    with unk show ?thesis unfolding fam by (simp add: flag_optimizes recognised_value_def)
  next
    assume la: "itemname = ''languages''"
    have c_case: ?thesis if tk: "toolkind = ''cc'' \<or> toolkind = ''mm''"
    proof -
      from tk unk la have "v \<notin> set (map fst c_languages)"
        by (elim disjE) (simp_all add: recognised_value_def)
      then have n: "map_of c_languages v = None" by (simp add: map_of_None_iff)
      from tk n show ?thesis unfolding fam la flag_languages by (elim disjE) simp_all
    qed
    have x_case: ?thesis if tk: "toolkind = ''cxx'' \<or> toolkind = ''mxx''"
    proof -
      from tk unk la have "v \<notin> set (map fst cxx_languages)"
        by (elim disjE) (simp_all add: recognised_value_def)
      then have n: "map_of cxx_languages v = None" by (simp add: map_of_None_iff)
      from tk n show ?thesis unfolding fam la flag_languages by (elim disjE) simp_all
    qed
    have o_case: ?thesis
      if "\<not> (toolkind = ''cc'' \<or> toolkind = ''mm'')" "\<not> (toolkind = ''cxx'' \<or> toolkind = ''mxx'')"
      using that unfolding fam la flag_languages by simp
    show ?thesis
    proof (cases "toolkind = ''cc'' \<or> toolkind = ''mm''")
      case True
      then show ?thesis by (rule c_case)
    next
      case False
      note not_c = this
      show ?thesis
      proof (cases "toolkind = ''cxx'' \<or> toolkind = ''mxx''")
        case True
        then show ?thesis by (rule x_case)
      next
        case False
        with not_c show ?thesis by (rule o_case)
      qed
    qed
  qed
qed

lemma unknown_item:
  assumes "toolname \<in> set gcc_clang_family" "itemname \<notin> set known_itemnames"
  shows "get_abstract_flag st toolkind toolname itemname v = Inl (Throw (''unknown itemname('' @ itemname @ '')!''))"
  using assms
  unfolding get_abstract_flag_def get_abstract_flag_for_gcc_clang_def 
    known_itemnames_def gcc_clang_family_def
  by simp

lemma unknown_tool:
  assumes "toolname \<notin> set gcc_clang_family" 
  shows "get_abstract_flag st toolkind toolname itemname v = Inl (Throw (''unknown toolname('' @ toolname @ '')!''))"
  using assms
  unfolding get_abstract_flag_def   gcc_clang_family_def
  by simp





text \<open>
  Claim C5, as the code has it. For a tool of the gcc/clang family, a value that a
  known item does not list translates to the empty string, and the loop of
  \<^verbatim>\<open>_get_abstract_flags\<close> then adds nothing for it; the exception is an unlisted
  \<^verbatim>\<open>languages\<close> value starting with \<^verbatim>\<open>cxx\<close> or \<^verbatim>\<open>c++\<close> under the tool kinds
  \<^verbatim>\<open>cxx\<close> and \<^verbatim>\<open>mxx\<close>, which throws. Translating a value with an unknown item name
  always throws, and so does translating a value with an unknown tool name.
\<close>

theorem translate_unknown_inputs:
  "(toolname \<in> set gcc_clang_family \<and> itemname \<in> set known_itemnames
      \<and> \<not> recognised_value toolkind itemname v \<longrightarrow>
      get_abstract_flag st toolkind toolname itemname v =
        (if itemname = ''languages'' \<and> toolkind \<in> set [''cxx'', ''mxx'']
            \<and> (prefix ''cxx'' v \<or> prefix ''c++'' v)
         then Inl (Throw (''unknown language value('' @ v @ '')!''))
         else Inr []))
   \<and> (get_abstract_flag st toolkind toolname itemname v = Inr [] \<longrightarrow>
        get_abstract_flags_loop st toolkind toolname itemname (v # vs) flags =
        get_abstract_flags_loop st toolkind toolname itemname vs flags)
   \<and> (toolname \<in> set gcc_clang_family \<and> itemname \<notin> set known_itemnames \<longrightarrow>
        get_abstract_flag st toolkind toolname itemname v =
          Inl (Throw (''unknown itemname('' @ itemname @ '')!'')))
   \<and> (toolname \<notin> set gcc_clang_family \<longrightarrow>
        get_abstract_flag st toolkind toolname itemname v =
          Inl (Throw (''unknown toolname('' @ toolname @ '')!'')))"
  using unknown_value [of toolname itemname toolkind v st] unknown_item [of toolname itemname st toolkind v]
    unknown_tool [of toolname st toolkind itemname v]
  by simp

text \<open>
  An unlisted \<^verbatim>\<open>symbols\<close> value, skipped in a list of two; an unlisted C++ language;
  the item name \<^verbatim>\<open>undefines\<close>; the tool name \<^verbatim>\<open>msvc\<close>.
\<close>

theorem translate_unknown_inputs_witness:
  "''gcc'' \<in> set gcc_clang_family \<and> ''symbols'' \<in> set known_itemnames
   \<and> \<not> recognised_value ''cc'' ''symbols'' ''fancy''
   \<and> get_abstract_flag init_state ''cc'' ''gcc'' ''symbols'' ''fancy'' = Inr []
   \<and> get_abstract_flags_loop init_state ''cc'' ''gcc'' ''symbols'' [''fancy'', ''debug''] [] = Inr '' -g''
   \<and> ''languages'' \<in> set known_itemnames \<and> \<not> recognised_value ''cxx'' ''languages'' ''c++99''
   \<and> get_abstract_flag init_state ''cxx'' ''gcc'' ''languages'' ''c++99''
        = Inl (Throw ''unknown language value(c++99)!'')
   \<and> ''undefines'' \<notin> set known_itemnames
   \<and> get_abstract_flag init_state ''cc'' ''gcc'' ''undefines'' ''FOO'' = Inl (Throw ''unknown itemname(undefines)!'')
   \<and> ''msvc'' \<notin> set gcc_clang_family
   \<and> get_abstract_flag init_state ''cc'' ''msvc'' ''defines'' ''FOO'' = Inl (Throw ''unknown toolname(msvc)!'')"
proof -
  have 1: "''gcc'' \<in> set gcc_clang_family" by code_simp
  have 2: "''symbols'' \<in> set known_itemnames" by code_simp
  have 3: "\<not> recognised_value ''cc'' ''symbols'' ''fancy''" by code_simp
  have 4: "''languages'' \<in> set known_itemnames" by code_simp
  have 5: "\<not> recognised_value ''cxx'' ''languages'' ''c++99''" by code_simp
  have 6: "''undefines'' \<notin> set known_itemnames" by code_simp
  have 7: "''msvc'' \<notin> set gcc_clang_family" by code_simp
  have 8: "get_abstract_flags_loop init_state ''cc'' ''gcc'' ''symbols'' [''debug''] [] = Inr '' -g''" by code_simp
  from translate_unknown_inputs [of "''gcc''" "''symbols''" "''cc''" "''fancy''" init_state] 1 2 3
  have a: "get_abstract_flag init_state ''cc'' ''gcc'' ''symbols'' ''fancy'' = Inr []" by simp
  from translate_unknown_inputs [of "''gcc''" "''symbols''" "''cc''" "''fancy''" init_state "[''debug'']" "[]"] a 8
  have b: "get_abstract_flags_loop init_state ''cc'' ''gcc'' ''symbols'' [''fancy'', ''debug''] [] = Inr '' -g''"
    by simp
  from translate_unknown_inputs [of "''gcc''" "''languages''" "''cxx''" "''c++99''" init_state] 1 4 5
  have c: "get_abstract_flag init_state ''cxx'' ''gcc'' ''languages'' ''c++99''
        = Inl (Throw ''unknown language value(c++99)!'')" by simp
  from translate_unknown_inputs [of "''gcc''" "''undefines''" "''cc''" "''FOO''" init_state] 1 6
  have d: "get_abstract_flag init_state ''cc'' ''gcc'' ''undefines'' ''FOO'' = Inl (Throw ''unknown itemname(undefines)!'')"
    by simp
  from translate_unknown_inputs [of "''msvc''" "''defines''" "''cc''" "''FOO''" init_state] 7
  have e: "get_abstract_flag init_state ''cc'' ''msvc'' ''defines'' ''FOO'' = Inl (Throw ''unknown toolname(msvc)!'')"
    by simp
  from 1 2 3 4 5 6 7 a b c d e show ?thesis by simp
qed

text \<open>
  Claim C5 as stated (every unlisted \<^verbatim>\<open>languages\<close> value starting with \<^verbatim>\<open>c++\<close>
  raises) fails under the tool kind \<^verbatim>\<open>cc\<close>: \<^verbatim>\<open>c++99\<close> is skipped there.
\<close>

theorem languages_under_cc_counterexample:
  "''gcc'' \<in> set gcc_clang_family \<and> ''languages'' \<in> set known_itemnames
   \<and> \<not> recognised_value ''cc'' ''languages'' ''c++99'' \<and> prefix ''c++'' ''c++99''
   \<and> get_abstract_flag init_state ''cc'' ''gcc'' ''languages'' ''c++99'' = Inr []"
  by code_simp

section \<open>Options with a default (C6)\<close>

text \<open>
  Claim C6, as the code has it. For every option whose default is non-empty (the
  registered names holding no white space), the option needs no checking and is not
  in the list \<^verbatim>\<open>_check_options\<close> works through, so the prober is not run for it;
  the checker leaves its \<^verbatim>\<open>value\<close> attribute as it was; and its resolved value
  afterwards is the value set before the check (by the command line or
  \<^verbatim>\<open>set_config\<close>) if there is a non-empty one, and the default otherwise.
\<close>

theorem default_skips_probing:
  assumes dflt: "test_nz (get_option_item st name ''default'')"
    and names: "blank_separated (xmake_sh_options st)"
  shows "\<not> option_need_checking st name
     \<and> name \<notin> set (string_words (get_options_for_checking st))
     \<and> (case check_options ev st of
          Inl e \<Rightarrow> True
        | Inr st' \<Rightarrow>
            get_option_item st' name ''value'' = get_option_item st name ''value''
          \<and> get_option_value st' name =
              (if test_z (get_option_item st name ''value'') then get_option_item st name ''default''
               else get_option_item st name ''value''))"
proof -
  from dflt have 1: "\<not> option_need_checking st name" by (rule default_no_checking)
  then have 2: "name \<notin> set (string_words (get_options_for_checking st))"
    by (simp add: options_for_checking_words [OF names])
  have 3: "get_option_item st' name ''value'' = get_option_item st name ''value''
          \<and> get_option_value st' name =
              (if test_z (get_option_item st name ''value'') then get_option_item st name ''default''
               else get_option_item st name ''value'')" if "check_options ev st = Inr st'" for st'
  proof -
    from that have "check_options_loop ev st (string_words (get_options_for_checking st)) = Inr st'"
      by (simp add: check_options_def Let_def)
    from check_options_loop_frame [OF this 2] show ?thesis
      by (simp add: get_option_value_def Let_def)
  qed
  from 1 2 3 show ?thesis by (simp split: sum.splits)
qed

text \<open>
  The example option \<^verbatim>\<open>tests\<close> (default \<^verbatim>\<open>true\<close>, no value on the command line)
  keeps its default through the check of \<^verbatim>\<open>pthread\<close>.
\<close>

theorem default_skips_probing_witness:
  "test_nz (get_option_item probe_state ''tests'' ''default'')
   \<and> blank_separated (xmake_sh_options probe_state)
   \<and> \<not> option_need_checking probe_state ''tests''
   \<and> ''tests'' \<notin> set (string_words (get_options_for_checking probe_state))
   \<and> (case check_options friendly_env probe_state of
          Inl e \<Rightarrow> True
        | Inr st' \<Rightarrow>
            get_option_item st' ''tests'' ''value'' = get_option_item probe_state ''tests'' ''value''
          \<and> get_option_value st' ''tests'' =
              (if test_z (get_option_item probe_state ''tests'' ''value'')
               then get_option_item probe_state ''tests'' ''default''
               else get_option_item probe_state ''tests'' ''value''))
   \<and> map_sum id (\<lambda>st'. get_option_value st' ''tests'') (check_options friendly_env probe_state)
       = Inr (JBool True)"
proof -
  have 1: "test_nz (get_option_item probe_state ''tests'' ''default'')" by code_simp
  have 2: "blank_separated (xmake_sh_options probe_state)" by code_simp
  have 3: "map_sum id (\<lambda>st'. get_option_value st' ''tests'') (check_options friendly_env probe_state)
       = Inr (JBool True)" by code_simp
  from default_skips_probing [OF 1 2, of friendly_env] 1 2 3 show ?thesis by (intro conjI) simp_all
qed

text \<open>
  Claim C6 as stated (the resolved value equals the default) fails when the command
  line sets the option: with \<^verbatim>\<open>--tests=no\<close> the option \<^verbatim>\<open>tests\<close>, whose default
  is \<^verbatim>\<open>true\<close>, resolves to \<^verbatim>\<open>"no"\<close>.
\<close>

theorem cli_value_overrides_default_counterexample:
  "test_nz (get_option_item cli_override_state ''tests'' ''default'')
   \<and> get_option_item cli_override_state ''tests'' ''default'' = JBool True
   \<and> map_sum id (\<lambda>st'. get_option_value st' ''tests'') (check_options friendly_env cli_override_state)
       = Inr (JStr ''no'')"
  by code_simp


section \<open>The snippet check of an empty kind (C1)\<close>

lemma check_cxsnippets_all_empty:
  assumes "test_z (get_option_item st name (kind @ ''funcs''))" "test_z (get_option_item st name (kind @ ''includes''))"
    "test_z (get_option_item st name (kind @ ''types''))" "test_z (get_option_item st name (kind @ ''snippets''))"
  shows "check_cxsnippets ev st name kind = Inr (False, st)"
  using assms by (simp add: check_cxsnippets_def Let_def)

text \<open>
  Claim C1 against the code. The option \<^verbatim>\<open>pthread\<close> of the example project has
  inputs of the C kind only and every command succeeds: the C check compiles its
  snippet and returns true, the C++ check returns false without running a command
  (\<^verbatim>\<open>_check_cxsnippets\<close> answers \<^verbatim>\<open>return false\<close> where the shell original has
  \<^verbatim>\<open>return 0\<close>), and \<^verbatim>\<open>_check_options\<close> resolves the option to false.
\<close>

theorem one_kind_option_resolves_false:
  "test_z (get_option_item probe_state ''pthread'' ''cxxfuncs'')
   \<and> test_z (get_option_item probe_state ''pthread'' ''cxxincludes'')
   \<and> test_z (get_option_item probe_state ''pthread'' ''cxxtypes'')
   \<and> test_z (get_option_item probe_state ''pthread'' ''cxxsnippets'')
   \<and> map_sum id (\<lambda>(ok, st'). (ok, commands_run st')) (check_csnippets friendly_env probe_state ''pthread'')
       = Inr (True, [''gcc -c  -o /tmp/tmp-1.o /tmp/tmp-1.c''])
   \<and> map_sum id (\<lambda>(ok, st'). (ok, commands_run st')) (check_cxxsnippets friendly_env probe_state ''pthread'')
       = Inr (False, [])
   \<and> map_sum id (\<lambda>st'. (get_option_value st' ''pthread'', commands_run st'))
        (check_options friendly_env probe_state)
       = Inr (JBool False, [''gcc -c  -o /tmp/tmp-1.o /tmp/tmp-1.c''])"
  by code_simp

section \<open>Facts about joined words\<close>

lemma split_on_append_sep: "split_on sep (a @ sep # b) = split_on sep a @ split_on sep b"
proof (induction a)
  case Nil
  show ?case by simp
next
  case (Cons c a)
  then show ?case by (cases "split_on sep a") (auto split: list.splits)
qed

lemma nonempty_words_append_blank:
  "nonempty_words (a @ CHR '' '' # b) = nonempty_words a @ nonempty_words b"
  by (simp add: nonempty_words_def split_on_append_sep)

lemma nonempty_words_join:
  assumes "\<forall>w \<in> set ws. w \<noteq> [] \<and> CHR '' '' \<notin> set w"
  shows "nonempty_words (js_join '' '' ws) = ws"
  using assms
proof (induction ws rule: induct_list012)
  case 1
  show ?case by simp
next
  case (2 x)
  then show ?case by (simp add: nonempty_words_single)
next
  case (3 x y zs)
  then show ?case by (simp add: nonempty_words_append_blank nonempty_words_single)
qed

lemma dedup_fold_remdups:
  "fold (\<lambda>word deduped. if word \<in> set deduped then deduped else word # deduped) (rev ws) [] = remdups ws"
  by (induction ws) auto

lemma dedup_reverse_words: "nonempty_words (dedup_reverse str) = remdups (nonempty_words str)"
proof -
  have "\<forall>w \<in> set (remdups (nonempty_words str)). w \<noteq> [] \<and> CHR '' '' \<notin> set w"
    by (auto dest: nonempty_words_tokens)
  then show ?thesis
    by (simp add: dedup_reverse_def Let_def dedup_fold_remdups nonempty_words_join)
qed

lemma string_to_array_tokens:
  assumes "string_to_array v = Inr ws" "is_text v"
  shows "\<forall>w \<in> set ws. w \<noteq> [] \<and> CHR '' '' \<notin> set w"
  using assms
  by (cases v) (auto simp: is_text_def string_words_def dest: nonempty_words_tokens)

section \<open>The string loop and the enumeration\<close>

lemma those_Cons: "those (x # xs) = (case x of None \<Rightarrow> None | Some y \<Rightarrow> map_option (Cons y) (those xs))"
  by simp

lemma librarydeps_loop_words:
  assumes rec: "\<And>d l. rec d = Some (Inr l) \<Longrightarrow> enum d = Some (nonempty_words l)"
    and tok: "\<forall>w \<in> set deps. w \<noteq> [] \<and> CHR '' '' \<notin> set w"
    and run: "librarydeps_loop rec st deps acc = Some (Inr l)"
  shows "\<exists>wss. those (map (\<lambda>dep. map_option (\<lambda>ws. dep # ws) (enum dep)) (filter (is_library st) deps)) = Some wss
           \<and> nonempty_words l = nonempty_words acc @ concat wss"
  using tok run
proof (induction deps arbitrary: acc)
  case Nil
  then show ?case by simp
next
  case (Cons dep deps)
  from Cons.prems(1) have dtok: "dep \<noteq> []" "CHR '' '' \<notin> set dep"
    and tok': "\<forall>w \<in> set deps. w \<noteq> [] \<and> CHR '' '' \<notin> set w" by auto
  show ?case
  proof (cases "is_library st dep")
    case False
    with Cons.prems(2) have "librarydeps_loop rec st deps acc = Some (Inr l)"
      by (simp add: is_library_def Let_def)
    from Cons.IH [OF tok' this] False show ?thesis by simp
  next
    case True
    with Cons.prems(2) obtain sub where sub: "rec dep = Some (Inr sub)"
      and rest: "librarydeps_loop rec st deps
          (if test_nz (JStr sub) then (acc @ '' '' @ dep) @ '' '' @ sub else acc @ '' '' @ dep) = Some (Inr l)"
      by (auto simp: is_library_def Let_def split: option.splits sum.splits)
    from rec [OF sub] have e: "enum dep = Some (nonempty_words sub)" .
    have w: "nonempty_words (if test_nz (JStr sub) then (acc @ '' '' @ dep) @ '' '' @ sub else acc @ '' '' @ dep)
        = nonempty_words acc @ dep # nonempty_words sub"
      using dtok
      by (auto simp: test_nz_def nonempty_words_append_blank nonempty_words_single)
    from Cons.IH [OF tok' rest] obtain wss where
      t: "those (map (\<lambda>dep. map_option (\<lambda>ws. dep # ws) (enum dep)) (filter (is_library st) deps)) = Some wss"
      and n: "nonempty_words l = (nonempty_words acc @ dep # nonempty_words sub) @ concat wss"
      unfolding w by blast
    from True e t n show ?thesis by simp
  qed
qed

lemma impl_words:
  assumes "deps_are_strings st" "get_target_librarydeps_impl fuel st name = Some (Inr l)"
  shows "dfs_library_deps fuel st name = Some (nonempty_words l)"
  using assms(2)
proof (induction fuel arbitrary: name l)
  case 0
  then show ?case by simp
next
  case (Suc fuel)
  from assms(1) have dtext: "is_text (get_target_item st name ''deps'')"
    by (simp add: deps_are_strings_def)
  from Suc.prems obtain deps where d: "string_to_array (get_target_item st name ''deps'') = Inr deps"
    and run: "librarydeps_loop (get_target_librarydeps_impl fuel st) st deps [] = Some (Inr l)"
    by (auto split: sum.splits)
  from string_to_array_tokens [OF d dtext] have tok: "\<forall>w \<in> set deps. w \<noteq> [] \<and> CHR '' '' \<notin> set w" .
  from librarydeps_loop_words [of "get_target_librarydeps_impl fuel st" "dfs_library_deps fuel st", OF Suc.IH tok run]
  obtain wss where
    "those (map (\<lambda>dep. map_option (\<lambda>ws. dep # ws) (dfs_library_deps fuel st dep)) (filter (is_library st) deps)) = Some wss"
    "nonempty_words l = concat wss" by auto
  with d show ?case by (simp add: library_deps_def target_deps_def)
qed

section \<open>Facts about the enumeration\<close>

lemma those_Some_map: "those xs = Some ys \<Longrightarrow> xs = map Some ys"
  by (induction xs arbitrary: ys) (auto split: option.splits)

lemma dfs_Suc_elim:
  assumes "dfs_library_deps (Suc fuel) st name = Some ws"
  obtains wss where "map (\<lambda>dep. map_option (\<lambda>ws. dep # ws) (dfs_library_deps fuel st dep)) (library_deps st name)
      = map Some wss" "ws = concat wss"
  using assms by (auto dest: those_Some_map)

lemma map_eq_map_Some_nth:
  assumes "map f xs = map Some ys" "y \<in> set ys"
  shows "\<exists>x \<in> set xs. f x = Some y"
proof -
  from assms(2) obtain i where i: "i < length ys" "ys ! i = y" by (auto simp: in_set_conv_nth)
  from assms(1) have len: "length xs = length ys" by (metis length_map)
  from assms(1) i len have "f (xs ! i) = Some y" by (metis nth_map)
  with i len show ?thesis by (metis nth_mem)
qed

lemma map_eq_map_Some_all:
  assumes "map f xs = map Some ys" "x \<in> set xs"
  shows "\<exists>y \<in> set ys. f x = Some y"
proof -
  from assms(2) obtain i where i: "i < length xs" "xs ! i = x" by (auto simp: in_set_conv_nth)
  from assms(1) have len: "length xs = length ys" by (metis length_map)
  from assms(1) i len have "f x = Some (ys ! i)" by (metis nth_map)
  with i len show ?thesis by (metis nth_mem)
qed

text \<open>Every enumerated name is reached through a library dependency.\<close>

lemma dfs_reached:
  assumes "dfs_library_deps fuel st name = Some ws" "t \<in> set ws"
  shows "\<exists>fuel' ws'. fuel' < fuel \<and> dfs_library_deps fuel' st t = Some ws' \<and> set ws' \<subseteq> set ws
           \<and> is_library st t"
  using assms
proof (induction fuel arbitrary: name ws)
  case 0
  then show ?case by simp
next
  case (Suc fuel)
  from Suc.prems(1) obtain wss where
    m: "map (\<lambda>dep. map_option (\<lambda>ws. dep # ws) (dfs_library_deps fuel st dep)) (library_deps st name) = map Some wss"
    and c: "ws = concat wss" by (rule dfs_Suc_elim)
  from Suc.prems(2) c obtain w where w: "w \<in> set wss" "t \<in> set w" by auto
  from map_eq_map_Some_nth [OF m w(1)] obtain dep sub where
    dep: "dep \<in> set (library_deps st name)" and sub: "dfs_library_deps fuel st dep = Some sub"
    and weq: "w = dep # sub" by auto
  from w(1) c have wsub: "set w \<subseteq> set ws" by auto
  show ?case
  proof (cases "t = dep")
    case True
    from dep have "is_library st dep" by (simp add: library_deps_def)
    with True sub wsub weq show ?thesis by (intro exI [of _ fuel] exI [of _ sub]) auto
  next
    case False
    with w(2) weq have "t \<in> set sub" by simp
    from Suc.IH [OF sub this] obtain fuel' ws' where
      "fuel' < fuel" "dfs_library_deps fuel' st t = Some ws'" "set ws' \<subseteq> set sub" "is_library st t" by blast
    with wsub weq show ?thesis by (intro exI [of _ fuel'] exI [of _ ws']) auto
  qed
qed

lemma dfs_direct:
  assumes "dfs_library_deps fuel st name = Some ws"
  shows "set (library_deps st name) \<subseteq> set ws"
proof (cases fuel)
  case 0
  with assms show ?thesis by simp
next
  case (Suc n)
  with assms have "dfs_library_deps (Suc n) st name = Some ws" by simp
  then obtain wss where
    m: "map (\<lambda>dep. map_option (\<lambda>ws. dep # ws) (dfs_library_deps n st dep)) (library_deps st name) = map Some wss"
    and c: "ws = concat wss" by (rule dfs_Suc_elim)
  show ?thesis
  proof
    fix d assume "d \<in> set (library_deps st name)"
    from map_eq_map_Some_all [OF m this] obtain w where "w \<in> set wss" "d \<in> set w" by auto
    with c show "d \<in> set ws" by auto
  qed
qed

lemma dfs_closed:
  assumes "dfs_library_deps fuel st name = Some ws" "t \<in> set ws" "d \<in> set (library_deps st t)"
  shows "d \<in> set ws"
proof -
  from dfs_reached [OF assms(1,2)] obtain fuel' ws' where
    "dfs_library_deps fuel' st t = Some ws'" "set ws' \<subseteq> set ws" by blast
  with dfs_direct [of fuel' st t ws'] assms(3) show ?thesis by auto
qed

section \<open>The memoising entry point\<close>

lemma test_nz_JStr: "test_nz (JStr s) = (s \<noteq> [])"
  by (simp add: test_nz_def)

lemma get_target_librarydeps_fresh:
  assumes fresh: "test_z (get_target_item st name ''librarydeps'')"
    and run: "get_target_librarydeps fuel st name = Some (Inr (r, st'))"
  shows "\<exists>l. get_target_librarydeps_impl fuel st name = Some (Inr l)
           \<and> (list_words r = remdups (nonempty_words l)
                \<or> (list_words r = [] \<and> remdups (nonempty_words l) = [''__none__'']))"
proof -
  from fresh have nq: "test_nq (get_target_item st name ''librarydeps'') (JStr ''__none__'')"
    by (auto simp: test_z_def test_nq_def)
  from run fresh nq obtain l where l: "get_target_librarydeps_impl fuel st name = Some (Inr l)"
    and r: "r = (if test_nz (JStr l)
                 then (if test_eq (JStr (dedup_reverse l)) (JStr ''__none__'') then JStr [] else JStr (dedup_reverse l))
                 else JStr [])"
    by (auto simp: get_target_librarydeps_def Let_def split: option.splits sum.splits if_splits)
  show ?thesis
  proof (cases "test_nz (JStr l)")
    case False
    then have "l = []" by (simp add: test_nz_JStr)
    with l r show ?thesis by (simp add: list_words_def test_nz_JStr)
  next
    case True
    show ?thesis
    proof (cases "dedup_reverse l = ''__none__''")
      case False
      with True r have "r = JStr (dedup_reverse l)" by (simp add: test_eq_def)
      with l show ?thesis by (simp add: list_words_def dedup_reverse_words)
    next
      case none: True
      have "nonempty_words (dedup_reverse l) = remdups (nonempty_words l)" by (rule dedup_reverse_words)
      with none have "remdups (nonempty_words l) = nonempty_words ''__none__''" by simp
      also have "nonempty_words ''__none__'' = [''__none__'']" by (simp add: nonempty_words_single)
      finally have 1: "remdups (nonempty_words l) = [''__none__'']" .
      from True r none have "r = JStr []" by (simp add: test_eq_def)
      with l 1 show ?thesis by (simp add: list_words_def)
    qed
  qed
qed

section \<open>Enough fuel gives a result\<close>

lemma librarydeps_loop_mono:
  assumes "\<And>d r. rec d = Some r \<Longrightarrow> rec' d = Some r"
    and "librarydeps_loop rec st deps acc = Some r"
  shows "librarydeps_loop rec' st deps acc = Some r"
  using assms(2)
proof (induction deps arbitrary: acc)
  case Nil
  then show ?case by simp
next
  case (Cons dep deps)
  show ?case
  proof (cases "is_library st dep")
    case False
    with Cons show ?thesis by (simp add: is_library_def Let_def)
  next
    case True
    show ?thesis
    proof (cases "rec dep")
      case None
      with True Cons.prems show ?thesis by (simp add: is_library_def Let_def)
    next
      case (Some x)
      from assms(1) [OF Some] have s': "rec' dep = Some x" .
      show ?thesis
      proof (cases x)
        case (Inl e)
        with True Cons.prems Some have r: "r = Inl e" by (simp add: is_library_def Let_def)
        from True s' Inl show ?thesis unfolding r by (simp add: is_library_def Let_def)
      next
        case (Inr l)
        with True Cons.prems Some have
          "librarydeps_loop rec st deps
             (if test_nz (JStr l) then (acc @ '' '' @ dep) @ '' '' @ l else acc @ '' '' @ dep) = Some r"
          by (simp add: is_library_def Let_def)
        from Cons.IH [OF this] True Some s' Inr show ?thesis by (simp add: is_library_def Let_def)
      qed
    qed
  qed
qed

lemma impl_fuel_Suc:
  "get_target_librarydeps_impl fuel st name = Some r \<Longrightarrow>
   get_target_librarydeps_impl (Suc fuel) st name = Some r"
proof (induction fuel arbitrary: name r)
  case 0
  then show ?case by simp
next
  case (Suc fuel)
  show ?case
  proof (cases "string_to_array (get_target_item st name ''deps'')")
    case (Inl e)
    with Suc.prems show ?thesis by simp
  next
    case (Inr deps)
    with Suc.prems have "librarydeps_loop (get_target_librarydeps_impl fuel st) st deps [] = Some r" by simp
    then have "librarydeps_loop (get_target_librarydeps_impl (Suc fuel) st) st deps [] = Some r"
      by (rule librarydeps_loop_mono [rotated]) (rule Suc.IH)
    with Inr show ?thesis by simp
  qed
qed

lemma impl_fuel_mono:
  assumes "get_target_librarydeps_impl fuel st name = Some r" "fuel \<le> fuel'"
  shows "get_target_librarydeps_impl fuel' st name = Some r"
  using assms(2,1)
proof (induction rule: dec_induct)
  case base
  then show ?case .
next
  case (step n)
  from step.IH [OF step.prems] show ?case by (rule impl_fuel_Suc)
qed

lemma librarydeps_loop_total:
  assumes "\<forall>d \<in> set deps. is_library st d \<longrightarrow> (\<exists>l. rec d = Some (Inr l))"
  shows "\<exists>l. librarydeps_loop rec st deps acc = Some (Inr l)"
  using assms
proof (induction deps arbitrary: acc)
  case Nil
  show ?case by simp
next
  case (Cons dep deps)
  show ?case
  proof (cases "is_library st dep")
    case False
    with Cons show ?thesis by (simp add: is_library_def Let_def)
  next
    case True
    with Cons.prems obtain l where "rec dep = Some (Inr l)" by auto
    with True Cons show ?thesis by (simp add: is_library_def Let_def)
  qed
qed

lemma is_text_string_to_array: "is_text v \<Longrightarrow> \<exists>ws. string_to_array v = Inr ws"
  by (cases v) (simp_all add: is_text_def)

text \<open>
  On a graph without cycles (every library dependency has a smaller rank) the
  computation returns: the rank of the target, plus one, is enough fuel.
\<close>

lemma librarydeps_impl_returns:
  assumes strings: "deps_are_strings st"
    and rank: "\<forall>t. \<forall>d \<in> set (library_deps st t). rank d < (rank t :: nat)"
  shows "\<exists>l. get_target_librarydeps_impl (Suc (rank name)) st name = Some (Inr l)"
proof (induction "rank name" arbitrary: name rule: less_induct)
  case less
  from strings obtain deps where d: "string_to_array (get_target_item st name ''deps'') = Inr deps"
    using is_text_string_to_array by (auto simp: deps_are_strings_def)
  have "\<exists>l. get_target_librarydeps_impl (rank name) st dep = Some (Inr l)"
    if "dep \<in> set deps" "is_library st dep" for dep
  proof -
    from that d have "dep \<in> set (library_deps st name)" by (simp add: library_deps_def target_deps_def)
    with rank have lt: "rank dep < rank name" by blast
    from less [OF lt] obtain l where "get_target_librarydeps_impl (Suc (rank dep)) st dep = Some (Inr l)" by blast
    from impl_fuel_mono [OF this] lt show ?thesis by auto
  qed
  then have "\<exists>l. librarydeps_loop (get_target_librarydeps_impl (rank name) st) st deps [] = Some (Inr l)"
    by (intro librarydeps_loop_total) blast
  with d show ?case by simp
qed

lemma get_target_librarydeps_returns:
  assumes strings: "deps_are_strings st"
    and rank: "\<forall>t. \<forall>d \<in> set (library_deps st t). rank d < (rank t :: nat)"
  shows "\<exists>r st'. get_target_librarydeps (Suc (rank name)) st name = Some (Inr (r, st'))"
proof -
  from librarydeps_impl_returns [OF strings rank] obtain l where
    "get_target_librarydeps_impl (Suc (rank name)) st name = Some (Inr l)" by blast
  then show ?thesis unfolding get_target_librarydeps_def Let_def by simp
qed

section \<open>The example graph\<close>

lemma example_diamond_deps_are_strings: "deps_are_strings example_diamond"
  unfolding deps_are_strings_def is_text_def get_target_item_def Let_def
  by (simp add: example_diamond_def run_or_init_def bind_err_def with_gcc_def toolchain_begin_def
      set_toolchain_toolset_def set_toolchain_item_def loading_targets_state_def targets_phase_def init_state_def
      set_kind_def target_begin_def target_end_def add_udefines_def add_target_item_def set_target_item_def
      map_set_def map_get_def map_has_def test_nz_def test_z_def test_nq_def Let_def)

lemma example_diamond_librarydeps:
  "get_target_librarydeps 3 example_diamond ''app'' =
     Some (Inr (JStr ''b a'', set_target_item example_diamond ''app'' ''librarydeps'' (JStr ''b a'')))"
proof -
  have 1: "get_target_item example_diamond ''app'' ''librarydeps'' = JUndefined" by code_simp
  have 2: "get_target_librarydeps_impl 3 example_diamond ''app'' = Some (Inr '' a b  a'')" by code_simp
  have 3: "dedup_reverse '' a b  a'' = ''b a''" by code_simp
  show ?thesis
    by (simp add: get_target_librarydeps_def Let_def 1 2 3 test_z_def test_nq_def test_nz_def test_eq_def)
qed


section \<open>The order of the library dependencies (C3)\<close>

text \<open>
  Claim C3, as the code has it. When no target stores its \<^verbatim>\<open>deps\<close> as an array, no
  library is named \<^verbatim>\<open>__none__\<close> and the list of the target has not been computed
  yet, the computed list of library dependencies is the depth-first enumeration of
  the \<^verbatim>\<open>deps\<close> of kind \<^verbatim>\<open>static\<close> or \<^verbatim>\<open>shared\<close> in which, of every repeated name,
  the last occurrence is kept (\<open>remdups\<close> keeps the last one): \<^verbatim>\<open>_dedup_reverse\<close>
  walks the words from the end and puts each new one in front.
\<close>

theorem librarydeps_dedup_of_dfs:
  assumes strings: "deps_are_strings st"
    and sentinel: "\<not> is_library st ''__none__''"
    and fresh: "test_z (get_target_item st name ''librarydeps'')"
    and run: "get_target_librarydeps fuel st name = Some (Inr (r, st'))"
  shows "map_option remdups (dfs_library_deps fuel st name) = Some (list_words r)"
proof -
  from get_target_librarydeps_fresh [OF fresh run] obtain l where
    l: "get_target_librarydeps_impl fuel st name = Some (Inr l)"
    and r: "list_words r = remdups (nonempty_words l)
            \<or> (list_words r = [] \<and> remdups (nonempty_words l) = [''__none__''])" by blast
  from impl_words [OF strings l] have d: "dfs_library_deps fuel st name = Some (nonempty_words l)" .
  have "remdups (nonempty_words l) \<noteq> [''__none__'']"
  proof
    assume "remdups (nonempty_words l) = [''__none__'']"
    then have "set (nonempty_words l) = {''__none__''}" by (metis set_remdups list.set(1) list.set(2))
    then have "''__none__'' \<in> set (nonempty_words l)" by simp
    from dfs_reached [OF d this] sentinel show False by blast
  qed
  with r d show ?thesis by simp
qed

text \<open>
  The theorem on the target \<^verbatim>\<open>app\<close> of the example: \<^verbatim>\<open>app\<close> depends on the
  libraries \<^verbatim>\<open>a\<close> and \<^verbatim>\<open>b\<close>, and \<^verbatim>\<open>b\<close> on \<^verbatim>\<open>a\<close>. The enumeration is
  \<^verbatim>\<open>a b a\<close>, the computed list \<^verbatim>\<open>b a\<close>.
\<close>

theorem librarydeps_dedup_of_dfs_witness:
  "deps_are_strings example_diamond
   \<and> \<not> is_library example_diamond ''__none__''
   \<and> test_z (get_target_item example_diamond ''app'' ''librarydeps'')
   \<and> get_target_librarydeps 3 example_diamond ''app'' =
       Some (Inr (JStr ''b a'', set_target_item example_diamond ''app'' ''librarydeps'' (JStr ''b a'')))
   \<and> dfs_library_deps 3 example_diamond ''app'' = Some [''a'', ''b'', ''a'']
   \<and> map_option remdups (dfs_library_deps 3 example_diamond ''app'') = Some (list_words (JStr ''b a''))
   \<and> list_words (JStr ''b a'') = [''b'', ''a'']"
proof -
  have 1: "\<not> is_library example_diamond ''__none__''" by code_simp
  have 2: "test_z (get_target_item example_diamond ''app'' ''librarydeps'')" by code_simp
  have 3: "dfs_library_deps 3 example_diamond ''app'' = Some [''a'', ''b'', ''a'']" by code_simp
  have 4: "list_words (JStr ''b a'') = [''b'', ''a'']" by code_simp
  from librarydeps_dedup_of_dfs [OF example_diamond_deps_are_strings 1 2 example_diamond_librarydeps]
  have 5: "map_option remdups (dfs_library_deps 3 example_diamond ''app'') = Some (list_words (JStr ''b a''))" .
  from example_diamond_deps_are_strings 1 2 example_diamond_librarydeps 3 4 5 show ?thesis
    by (intro conjI)
qed

text \<open>
  Claim C3 as the specification words it fails on the same target: keeping the first
  occurrence of every name of the enumeration \<^verbatim>\<open>a b a\<close> gives \<^verbatim>\<open>a b\<close>, the code
  returns \<^verbatim>\<open>b a\<close>.
\<close>

theorem first_occurrence_counterexample:
  "map_option (map_sum id (\<lambda>(r, st'). list_words r)) (get_target_librarydeps 3 example_diamond ''app'')
     = Some (Inr [''b'', ''a''])
   \<and> map_option dedup_first (dfs_library_deps 3 example_diamond ''app'') = Some [''a'', ''b'']"
  by code_simp


section \<open>The library dependencies are closed and distinct (C8)\<close>

text \<open>
  Claim C8. When no target stores its \<^verbatim>\<open>deps\<close> as an array and the list of the target
  has not been computed yet, every name of the computed list is a target of kind
  \<^verbatim>\<open>static\<close> or \<^verbatim>\<open>shared\<close>, every \<^verbatim>\<open>static\<close> or \<^verbatim>\<open>shared\<close> dependency of a
  listed target is listed, and no name is listed twice.
\<close>

theorem librarydeps_closed_distinct:
  assumes strings: "deps_are_strings st"
    and fresh: "test_z (get_target_item st name ''librarydeps'')"
    and run: "get_target_librarydeps fuel st name = Some (Inr (r, st'))"
  shows "(\<forall>t \<in> set (list_words r). is_library st t)
       \<and> (\<forall>t \<in> set (list_words r). \<forall>d \<in> set (library_deps st t). d \<in> set (list_words r))
       \<and> distinct (list_words r)"
proof -
  from get_target_librarydeps_fresh [OF fresh run] obtain l where
    l: "get_target_librarydeps_impl fuel st name = Some (Inr l)"
    and r: "list_words r = remdups (nonempty_words l)
            \<or> (list_words r = [] \<and> remdups (nonempty_words l) = [''__none__''])" by blast
  from impl_words [OF strings l] have d: "dfs_library_deps fuel st name = Some (nonempty_words l)" .
  from r show ?thesis
  proof
    assume e: "list_words r = remdups (nonempty_words l)"
    have "is_library st t" if "t \<in> set (nonempty_words l)" for t
      using dfs_reached [OF d that] by blast
    moreover have "x \<in> set (nonempty_words l)"
      if "t \<in> set (nonempty_words l)" "x \<in> set (library_deps st t)" for t x
      using dfs_closed [OF d that] .
    ultimately show ?thesis unfolding e by simp
  next
    assume "list_words r = [] \<and> remdups (nonempty_words l) = [''__none__'']"
    then show ?thesis by simp
  qed
qed

text \<open>
  The theorem on the target \<^verbatim>\<open>app\<close> of the example: the list is \<^verbatim>\<open>b a\<close>, both are
  libraries, the only library dependency among them is \<^verbatim>\<open>a\<close> of \<^verbatim>\<open>b\<close>.
\<close>

theorem librarydeps_closed_distinct_witness:
  "deps_are_strings example_diamond
   \<and> test_z (get_target_item example_diamond ''app'' ''librarydeps'')
   \<and> get_target_librarydeps 3 example_diamond ''app'' =
       Some (Inr (JStr ''b a'', set_target_item example_diamond ''app'' ''librarydeps'' (JStr ''b a'')))
   \<and> list_words (JStr ''b a'') = [''b'', ''a'']
   \<and> is_library example_diamond ''b'' \<and> is_library example_diamond ''a''
   \<and> library_deps example_diamond ''b'' = [''a''] \<and> library_deps example_diamond ''a'' = []
   \<and> distinct (list_words (JStr ''b a''))"
proof -
  have 2: "test_z (get_target_item example_diamond ''app'' ''librarydeps'')" by code_simp
  have 4: "list_words (JStr ''b a'') = [''b'', ''a'']" by code_simp
  have 5: "library_deps example_diamond ''b'' = [''a'']" by code_simp
  have 6: "library_deps example_diamond ''a'' = []" by code_simp
  note t = librarydeps_closed_distinct [OF example_diamond_deps_are_strings 2 example_diamond_librarydeps]
  from t have a: "is_library example_diamond ''b''" "is_library example_diamond ''a''"
    and b: "distinct (list_words (JStr ''b a''))" by (simp_all add: 4)
  from example_diamond_deps_are_strings 2 example_diamond_librarydeps 4 5 6 a b show ?thesis
    by (intro conjI)
qed

section \<open>The file of a target (C7)\<close>



end
